theory Spec2Isabelle
  imports Complex_Main "HOL-Library.Log_Nat"
begin

section \<open>Observable behaviour of a driver run\<close>

text \<open>
  Both programs are \<open>main\<close> functions that call into the GRT library, print to
  \<open>cout\<close>, and return \<open>EXIT_SUCCESS\<close> or \<open>EXIT_FAILURE\<close>. A run is modelled by its
  exit status together with the sequence of events it produces, in program order:
  every library call whose \<open>bool\<close> result the driver tests (with that result), every
  other library call that may change an object, every item sent to \<open>cout\<close>, and every
  operation on the results \<open>fstream\<close>.
\<close>

datatype exit_status = EXIT_SUCCESS | EXIT_FAILURE

text \<open>
  The one floating-point computation done by the drivers themselves is the final
  accuracy expression of the ANBC example, a division and a multiplication of
  \<open>double\<close> values. A \<open>double\<close> is modelled by its exact value when it is finite,
  and the two operations round as IEEE 754 binary64 does in the default mode: to the
  nearest value with a 53-bit significand, ties to the even significand, with
  subnormal values below \<open>2 powi - 1022\<close> and overflow to infinity from
  \<open>2 ^ 1024\<close> on. Signed zeros are not distinguished.
\<close>

datatype dbl = Fin real | PosInf | NegInf | NaN

text \<open>The nearest integer, a tie going to the even one.\<close>

definition round_even :: "real \<Rightarrow> int" where
  "round_even x =
     (let f = \<lfloor>x\<rfloor>; d = x - of_int f
      in if d < 1 / 2 then f else if 1 / 2 < d then f + 1 else if even f then f else f + 1)"

text \<open>
  The binary exponent of a positive real \<open>x\<close>: the \<open>e\<close> with
  \<open>2 powi e \<le> x < 2 powi (e + 1)\<close>, computed from the bit length of the integer
  part of \<open>x\<close>, or of its reciprocal when \<open>x\<close> is below 1.
\<close>

definition exponent2 :: "real \<Rightarrow> int" where
  "exponent2 x =
     (if 1 \<le> x then int (floorlog 2 (nat \<lfloor>x\<rfloor>)) - 1
      else - int (floorlog 2 (nat (\<lceil>1 / x\<rceil> - 1))))"

definition round_double :: "real \<Rightarrow> dbl" where
  "round_double x =
     (if x = 0 then Fin 0
      else (let a = \<bar>x\<bar>;
                u = 2 powi (max (exponent2 a) (- 1022) - 52);
                r = of_int (round_even (a / u)) * u
            in if 2 ^ 1024 \<le> r then (if 0 < x then PosInf else NegInf)
               else Fin (if 0 < x then r else - r)))"

text \<open>
  Division and multiplication of finite doubles, given by their exact values. The
  count in \<open>accuracy\<close>, the number of samples and the constant 100 are whole numbers
  that a \<open>double\<close> holds exactly.
\<close>

definition ddiv :: "real \<Rightarrow> real \<Rightarrow> dbl" where
  "ddiv a b =
     (if b = 0 then (if a = 0 then NaN else if 0 < a then PosInf else NegInf)
      else round_double (a / b))"

fun dmul :: "dbl \<Rightarrow> real \<Rightarrow> dbl" where
  "dmul (Fin a) c = round_double (a * c)"
| "dmul NaN c = NaN"
| "dmul PosInf c = (if 0 < c then PosInf else if c < 0 then NegInf else NaN)"
| "dmul NegInf c = (if 0 < c then NegInf else if c < 0 then PosInf else NaN)"

fun in_unit_interval :: "dbl \<Rightarrow> bool" where
  "in_unit_interval (Fin r) = (0 \<le> r \<and> r \<le> 1)"
| "in_unit_interval PosInf = False"
| "in_unit_interval NegInf = False"
| "in_unit_interval NaN = False"

text \<open>
  Items written with \<open>operator<<\<close>. \<open>'x\<close> is the type of the \<open>double\<close> values that
  the library hands to the driver (feature, target and output components, the RMS
  error); the drivers only pass them on, so they stay abstract.
\<close>

datatype 'x token =
    Str string
  | UInt nat
  | Dbl dbl
  | Val 'x
  | Endl

abbreviation TAB :: string where
  "TAB \<equiv> [CHR 0x09]"

datatype 'x libcall =
    LoadDatasetFromFile string
  | Train
  | SaveModelToFile string
  | LoadModelFromFile string
  | Predict "'x list"
  | SavePipelineToFile string
  | LoadPipelineFromFile string
  | Test

datatype 'x event =
    Call "'x libcall" bool
  | Invoke string
  | Cout "'x token"
  | FileOpen string
  | FileWrite "'x token"
  | FileClose

type_synonym 'x run = "exit_status \<times> 'x event list"

definition emit :: "'x event list \<Rightarrow> 'x run \<Rightarrow> 'x run" where
  "emit es r = (fst r, es @ snd r)"

fun is_cout :: "'x event \<Rightarrow> bool" where
  "is_cout (Cout t) = True"
| "is_cout e = False"

section \<open>ANBCExample.cpp\<close>

text \<open>
  The GRT classes used by the example are not part of the sources at hand, so the
  library is a parameter: one field per member function that \<open>main\<close> calls, acting on
  the state of the object it is called on (\<open>'m\<close> an \<open>ANBC\<close> instance, \<open>'d\<close> a
  \<open>ClassificationData\<close> instance, \<open>'w\<close> the files on disk). Unsigned counters and
  labels (\<open>UINT\<close>) are natural numbers: the loop counter stays below
  \<open>getNumSamples()\<close>, itself a \<open>UINT\<close>, so \<open>i++\<close> never wraps.
  \<open>testData[i].getClassLabel()\<close> and \<open>testData[i].getSample()\<close> are the fields
  \<open>ClassificationData_getClassLabel\<close> and \<open>ClassificationData_getSample\<close> at index \<open>i\<close>.
\<close>

record ('m, 'd, 'w, 'x) anbc_lib =
  ANBC_new :: 'm
  ANBC_setNullRejectionCoeff :: "real \<Rightarrow> 'm \<Rightarrow> 'm"
  ANBC_enableScaling :: "bool \<Rightarrow> 'm \<Rightarrow> 'm"
  ANBC_enableNullRejection :: "bool \<Rightarrow> 'm \<Rightarrow> 'm"
  ClassificationData_new :: 'd
  ClassificationData_loadDatasetFromFile :: "string \<Rightarrow> 'w \<Rightarrow> 'd \<Rightarrow> bool \<times> 'd"
  ClassificationData_partition :: "nat \<Rightarrow> 'd \<Rightarrow> 'd \<times> 'd"
  ClassificationData_getNumSamples :: "'d \<Rightarrow> nat"
  ClassificationData_getClassLabel :: "'d \<Rightarrow> nat \<Rightarrow> nat"
  ClassificationData_getSample :: "'d \<Rightarrow> nat \<Rightarrow> 'x list"
  ANBC_train :: "'d \<Rightarrow> 'm \<Rightarrow> bool \<times> 'm"
  ANBC_saveModelToFile :: "string \<Rightarrow> 'm \<Rightarrow> 'w \<Rightarrow> bool \<times> 'w"
  ANBC_loadModelFromFile :: "string \<Rightarrow> 'w \<Rightarrow> 'm \<Rightarrow> bool \<times> 'm"
  ANBC_predict :: "'x list \<Rightarrow> 'm \<Rightarrow> bool \<times> 'm"
  ANBC_getPredictedClassLabel :: "'m \<Rightarrow> nat"
  ANBC_getClassLikelihoods :: "'m \<Rightarrow> 'x list"
  ANBC_getClassDistances :: "'m \<Rightarrow> 'x list"

text \<open>
  The \<open>for\<close> loop of lines 95 to 117, from counter value \<open>i\<close> on. The result is
  \<open>None\<close> when a prediction fails and \<open>main\<close> returns from inside the loop, and
  \<open>Some accuracy\<close> when the loop runs to its end.
\<close>

function anbc_test_loop ::
  "('m, 'd, 'w, 'x) anbc_lib \<Rightarrow> 'd \<Rightarrow> nat \<Rightarrow> 'm \<Rightarrow> real \<Rightarrow> real option \<times> 'x event list"
where
  "anbc_test_loop lib testData i anbc accuracy =
     (if i < ClassificationData_getNumSamples lib testData then
        (let classLabel = ClassificationData_getClassLabel lib testData i;
             inputVector = ClassificationData_getSample lib testData i;
             (predictSuccess, anbc') = ANBC_predict lib inputVector anbc
         in if \<not> predictSuccess then
              (None,
               [Call (Predict inputVector) False,
                Cout (Str ''Failed to perform prediction for test sampel: ''),
                Cout (UInt i), Cout (Str ''\<newline>'')])
            else
              (let predictedClassLabel = ANBC_getPredictedClassLabel lib anbc';
                   classLikelihoods = ANBC_getClassLikelihoods lib anbc';
                   classDistances = ANBC_getClassDistances lib anbc';
                   accuracy' = (if classLabel = predictedClassLabel then accuracy + 1
                                else accuracy);
                   (r, es) = anbc_test_loop lib testData (i + 1) anbc' accuracy'
               in (r,
                   [Call (Predict inputVector) True,
                    Cout (Str ''TestSample: ''), Cout (UInt i),
                    Cout (Str '' ClassLabel: ''), Cout (UInt classLabel),
                    Cout (Str '' PredictedClassLabel: ''), Cout (UInt predictedClassLabel),
                    Cout Endl] @ es)))
      else (Some accuracy, []))"
  by pat_completeness auto
termination
  by (relation "measure (\<lambda>(lib, testData, i, anbc, accuracy).
        ClassificationData_getNumSamples lib testData - i)") auto

declare anbc_test_loop.simps [simp del]

text \<open>Lines 94 to 121: the test loop, the accuracy report and the final return.\<close>

definition anbc_test :: "('m, 'd, 'w, 'x) anbc_lib \<Rightarrow> 'd \<Rightarrow> 'm \<Rightarrow> 'x run" where
  "anbc_test lib testData anbc =
     (case anbc_test_loop lib testData 0 anbc 0 of
        (None, es) \<Rightarrow> (EXIT_FAILURE, es)
      | (Some accuracy, es) \<Rightarrow>
          (EXIT_SUCCESS,
           es @ [Cout (Str ''Test Accuracy: ''),
                 Cout (Dbl (dmul (ddiv accuracy
                                    (real (ClassificationData_getNumSamples lib testData)))
                                 100)),
                 Cout (Str ''%''), Cout Endl]))"

text \<open>\<open>main\<close>, lines 49 to 122. \<open>argc\<close> and \<open>argv\<close> are its parameters, \<open>w\<close> the files.\<close>

definition anbc_main ::
  "('m, 'd, 'w, 'x) anbc_lib \<Rightarrow> int \<Rightarrow> string list \<Rightarrow> 'w \<Rightarrow> 'x run"
where
  "anbc_main lib argc argv w =
     (let anbc0 = ANBC_enableNullRejection lib True
                    (ANBC_enableScaling lib True
                      (ANBC_setNullRejectionCoeff lib 10 (ANBC_new lib)));
          (loaded, trainingData0) =
             ClassificationData_loadDatasetFromFile lib ''ANBCTrainingData.txt'' w
               (ClassificationData_new lib)
      in emit [Invoke ''ANBC::setNullRejectionCoeff'', Invoke ''ANBC::enableScaling'',
               Invoke ''ANBC::enableNullRejection'',
               Call (LoadDatasetFromFile ''ANBCTrainingData.txt'') loaded]
        (if \<not> loaded then
           (EXIT_FAILURE, [Cout (Str ''Failed to load training data!\<newline>'')])
         else
           (let (testData, trainingData) = ClassificationData_partition lib 80 trainingData0;
                (trainSuccess, anbc1) = ANBC_train lib trainingData anbc0
            in emit [Invoke ''ClassificationData::partition'', Call Train trainSuccess]
              (if \<not> trainSuccess then
                 (EXIT_FAILURE, [Cout (Str ''Failed to train classifier!\<newline>'')])
               else
                 (let (saveSuccess, w1) = ANBC_saveModelToFile lib ''ANBCModel.txt'' anbc1 w
                  in emit [Call (SaveModelToFile ''ANBCModel.txt'') saveSuccess]
                    (if \<not> saveSuccess then
                       (EXIT_FAILURE,
                        [Cout (Str ''Failed to save the classifier model!\<newline>'')])
                     else
                       (let (loadSuccess, anbc2) =
                              ANBC_loadModelFromFile lib ''ANBCModel.txt'' w1 anbc1
                        in emit [Call (LoadModelFromFile ''ANBCModel.txt'') loadSuccess]
                          (if \<not> loadSuccess then
                             (EXIT_FAILURE,
                              [Cout (Str ''Failed to load the classifier model!\<newline>'')])
                           else anbc_test lib testData anbc2))))))))"

section \<open>MultidimensionalRegressionExample.cpp\<close>

text \<open>
  The library of the regression example, again one field per member function called:
  \<open>'p\<close> is the state of the \<open>GestureRecognitionPipeline\<close>, \<open>'d\<close> of a
  \<open>RegressionData\<close> instance. \<open>Pipeline_setRegressifier\<close> is \<open>setRegressifier\<close> at
  the one argument the example passes,
  \<open>MultidimensionalRegression( LinearRegression(), true )\<close>. The getters are
  \<open>const\<close> reads of the object. \<open>TrainingLog::enableLogging\<close> and \<open>printStats\<close>
  only affect what the library itself prints; they appear as \<open>Invoke\<close> events.
\<close>

record ('p, 'd, 'w, 'x) regr_lib =
  RegressionData_new :: 'd
  RegressionData_loadDatasetFromFile :: "string \<Rightarrow> 'w \<Rightarrow> 'd \<Rightarrow> bool \<times> 'd"
  RegressionData_getNumInputDimensions :: "'d \<Rightarrow> nat"
  RegressionData_getNumTargetDimensions :: "'d \<Rightarrow> nat"
  RegressionData_getNumSamples :: "'d \<Rightarrow> nat"
  RegressionData_getInputVector :: "'d \<Rightarrow> nat \<Rightarrow> 'x list"
  RegressionData_getTargetVector :: "'d \<Rightarrow> nat \<Rightarrow> 'x list"
  Pipeline_new :: 'p
  Pipeline_setRegressifier :: "'p \<Rightarrow> 'p"
  Pipeline_train :: "'d \<Rightarrow> 'p \<Rightarrow> bool \<times> 'p"
  Pipeline_savePipelineToFile :: "string \<Rightarrow> 'p \<Rightarrow> 'w \<Rightarrow> bool \<times> 'w"
  Pipeline_loadPipelineFromFile :: "string \<Rightarrow> 'w \<Rightarrow> 'p \<Rightarrow> bool \<times> 'p"
  Pipeline_test :: "'d \<Rightarrow> 'p \<Rightarrow> bool \<times> 'p"
  Pipeline_getTestRMSError :: "'p \<Rightarrow> 'x"
  Pipeline_predict :: "'x list \<Rightarrow> 'p \<Rightarrow> bool \<times> 'p"
  Pipeline_getRegressionData :: "'p \<Rightarrow> 'x list"

text \<open>
  The two inner loops of lines 146 to 151 have the same body: each component of the
  vector is written to the file, followed by a tab.
\<close>

primrec write_vector :: "'x list \<Rightarrow> 'x event list" where
  "write_vector [] = []"
| "write_vector (v # vs) = FileWrite (Val v) # FileWrite (Str TAB) # write_vector vs"

text \<open>
  The \<open>for\<close> loop of lines 132 to 153, from counter value \<open>i\<close> on. The result is
  \<open>False\<close> when a prediction fails and \<open>main\<close> returns from inside the loop, and
  \<open>True\<close> when the loop runs to its end.
\<close>

function regr_results_loop ::
  "('p, 'd, 'w, 'x) regr_lib \<Rightarrow> 'd \<Rightarrow> nat \<Rightarrow> 'p \<Rightarrow> bool \<times> 'x event list"
where
  "regr_results_loop lib testData i pipeline =
     (if i < RegressionData_getNumSamples lib testData then
        (let inputVector = RegressionData_getInputVector lib testData i;
             targetVector = RegressionData_getTargetVector lib testData i;
             (predicted, pipeline') = Pipeline_predict lib inputVector pipeline
         in if \<not> predicted then
              (False,
               [Call (Predict inputVector) False,
                Cout (Str ''ERROR: Failed to map test sample ''), Cout (UInt i), Cout Endl])
            else
              (let outputVector = Pipeline_getRegressionData lib pipeline';
                   (r, es) = regr_results_loop lib testData (i + 1) pipeline'
               in (r,
                   Call (Predict inputVector) True #
                   write_vector outputVector @ write_vector targetVector @
                   [FileWrite Endl] @ es)))
      else (True, []))"
  by pat_completeness auto
termination
  by (relation "measure (\<lambda>(lib, testData, i, pipeline).
        RegressionData_getNumSamples lib testData - i)") auto

declare regr_results_loop.simps [simp del]

text \<open>Lines 129 to 158: the results file is opened, filled by the loop, and closed.\<close>

definition regr_write_results :: "('p, 'd, 'w, 'x) regr_lib \<Rightarrow> 'd \<Rightarrow> 'p \<Rightarrow> 'x run" where
  "regr_write_results lib testData pipeline =
     (case regr_results_loop lib testData 0 pipeline of
        (False, es) \<Rightarrow>
          (EXIT_FAILURE, FileOpen ''MultidimensionalRegressionResultsData.txt'' # es)
      | (True, es) \<Rightarrow>
          (EXIT_SUCCESS,
           FileOpen ''MultidimensionalRegressionResultsData.txt'' # es @ [FileClose]))"

text \<open>
  \<open>main\<close>, lines 53 to 159. The second dimension check is written as in the source:
  both sides of \<open>!=\<close> read the target dimension of \<open>testData\<close>.
\<close>

definition regr_main ::
  "('p, 'd, 'w, 'x) regr_lib \<Rightarrow> int \<Rightarrow> string list \<Rightarrow> 'w \<Rightarrow> 'x run"
where
  "regr_main lib argc argv w =
     (let (loadedTrain, trainingData) =
            RegressionData_loadDatasetFromFile lib
              ''MultidimensionalRegressionTrainingData.txt'' w (RegressionData_new lib)
      in emit [Invoke ''TrainingLog::enableLogging'',
               Call (LoadDatasetFromFile ''MultidimensionalRegressionTrainingData.txt'')
                 loadedTrain]
        (if \<not> loadedTrain then
           (EXIT_FAILURE, [Cout (Str ''ERROR: Failed to load training data!\<newline>'')])
         else
           (let (loadedTest, testData) =
                  RegressionData_loadDatasetFromFile lib
                    ''MultidimensionalRegressionTestData.txt'' w (RegressionData_new lib)
            in emit [Call (LoadDatasetFromFile ''MultidimensionalRegressionTestData.txt'')
                       loadedTest]
              (if \<not> loadedTest then
                 (EXIT_FAILURE, [Cout (Str ''ERROR: Failed to load test data!\<newline>'')])
               else if RegressionData_getNumInputDimensions lib trainingData
                         \<noteq> RegressionData_getNumInputDimensions lib testData then
                 (EXIT_FAILURE,
                  [Cout (Str ''ERROR: The number of input dimensions in the training data (''),
                   Cout (UInt (RegressionData_getNumInputDimensions lib trainingData)),
                   Cout (Str '')''),
                   Cout (Str '' does not match the number of input dimensions in the test data (''),
                   Cout (UInt (RegressionData_getNumInputDimensions lib testData)),
                   Cout (Str '')\<newline>'')])
               else if RegressionData_getNumTargetDimensions lib testData
                         \<noteq> RegressionData_getNumTargetDimensions lib testData then
                 (EXIT_FAILURE,
                  [Cout (Str ''ERROR: The number of target dimensions in the training data (''),
                   Cout (UInt (RegressionData_getNumTargetDimensions lib testData)),
                   Cout (Str '')''),
                   Cout (Str '' does not match the number of target dimensions in the test data (''),
                   Cout (UInt (RegressionData_getNumTargetDimensions lib testData)),
                   Cout (Str '')\<newline>'')])
               else
                 (let pipeline0 = Pipeline_setRegressifier lib (Pipeline_new lib);
                      (trained, pipeline1) = Pipeline_train lib trainingData pipeline0
                  in emit [Cout (Str ''Training and Test datasets loaded\<newline>''),
                           Cout (Str ''Training data stats:\<newline>''),
                           Invoke ''RegressionData::printStats'',
                           Cout (Str ''Test data stats:\<newline>''),
                           Invoke ''RegressionData::printStats'',
                           Invoke ''GestureRecognitionPipeline::setRegressifier'',
                           Cout (Str ''Training MultidimensionalRegression model...\<newline>''),
                           Call Train trained]
                    (if \<not> trained then
                       (EXIT_FAILURE,
                        [Cout (Str ''ERROR: Failed to train MultidimensionalRegression model!\<newline>'')])
                     else
                       (let (saved, w1) = Pipeline_savePipelineToFile lib ''Pipeline'' pipeline1 w
                        in emit [Cout (Str ''Model trained.\<newline>''),
                                 Call (SavePipelineToFile ''Pipeline'') saved]
                          (if \<not> saved then
                             (EXIT_FAILURE, [Cout (Str ''ERROR: Failed to save pipeline!\<newline>'')])
                           else
                             (let (reloaded, pipeline2) =
                                    Pipeline_loadPipelineFromFile lib ''Pipeline'' w1 pipeline1
                              in emit [Call (LoadPipelineFromFile ''Pipeline'') reloaded]
                                (if \<not> reloaded then
                                   (EXIT_FAILURE,
                                    [Cout (Str ''ERROR: Failed to load pipeline!\<newline>'')])
                                 else
                                   (let (tested, pipeline3) = Pipeline_test lib testData pipeline2
                                    in emit [Cout (Str ''Testing MultidimensionalRegression model...\<newline>''),
                                             Call Test tested]
                                      (if \<not> tested then
                                         (EXIT_FAILURE,
                                          [Cout (Str ''ERROR: Failed to test MultidimensionalRegression model!\<newline>'')])
                                       else
                                         emit [Cout (Str ''Test complete. Test RMS error: ''),
                                               Cout (Val (Pipeline_getTestRMSError lib pipeline3)),
                                               Cout Endl]
                                           (regr_write_results lib testData pipeline3)))))))))))))"

section \<open>Notions used to state the properties\<close>

text \<open>
  A trace is fail-fast when the first tested library call that returned \<open>false\<close> is
  followed by console output only (at least one item) and the run ends with
  \<open>EXIT_FAILURE\<close>.
\<close>

fun call_failed :: "'x event \<Rightarrow> bool" where
  "call_failed (Call c b) = (\<not> b)"
| "call_failed e = False"

fun fail_fast :: "exit_status \<Rightarrow> 'x event list \<Rightarrow> bool" where
  "fail_fast st [] = True"
| "fail_fast st (Call c b # es) =
     (if b then fail_fast st es else st = EXIT_FAILURE \<and> es \<noteq> [] \<and> list_all is_cout es)"
| "fail_fast st (e # es) = fail_fast st es"

text \<open>
  The events of a run up to the test loop of the ANBC driver, and up to the results
  loop of the regression driver, when every call before the loop succeeds. In the
  regression driver the RMS error that the pipeline reports is printed on the way.
\<close>

definition anbc_setup_events :: "'x event list" where
  "anbc_setup_events =
     [Invoke ''ANBC::setNullRejectionCoeff'', Invoke ''ANBC::enableScaling'',
      Invoke ''ANBC::enableNullRejection'',
      Call (LoadDatasetFromFile ''ANBCTrainingData.txt'') True,
      Invoke ''ClassificationData::partition'', Call Train True,
      Call (SaveModelToFile ''ANBCModel.txt'') True,
      Call (LoadModelFromFile ''ANBCModel.txt'') True]"

definition regr_setup_events :: "'x \<Rightarrow> 'x event list" where
  "regr_setup_events rms =
     [Invoke ''TrainingLog::enableLogging'',
      Call (LoadDatasetFromFile ''MultidimensionalRegressionTrainingData.txt'') True,
      Call (LoadDatasetFromFile ''MultidimensionalRegressionTestData.txt'') True,
      Cout (Str ''Training and Test datasets loaded\<newline>''),
      Cout (Str ''Training data stats:\<newline>''),
      Invoke ''RegressionData::printStats'',
      Cout (Str ''Test data stats:\<newline>''),
      Invoke ''RegressionData::printStats'',
      Invoke ''GestureRecognitionPipeline::setRegressifier'',
      Cout (Str ''Training MultidimensionalRegression model...\<newline>''),
      Call Train True,
      Cout (Str ''Model trained.\<newline>''),
      Call (SavePipelineToFile ''Pipeline'') True,
      Call (LoadPipelineFromFile ''Pipeline'') True,
      Cout (Str ''Testing MultidimensionalRegression model...\<newline>''),
      Call Test True,
      Cout (Str ''Test complete. Test RMS error: ''), Cout (Val rms), Cout Endl]"

text \<open>What a run has written to the results file: the tokens of its \<open>FileWrite\<close> events.\<close>

fun file_written :: "'x event list \<Rightarrow> 'x token list" where
  "file_written [] = []"
| "file_written (FileWrite t # es) = t # file_written es"
| "file_written (e # es) = file_written es"

text \<open>The numeric values among a sequence of tokens, in order.\<close>

fun token_values :: "'x token list \<Rightarrow> 'x list" where
  "token_values [] = []"
| "token_values (Val v # ts) = v # token_values ts"
| "token_values (t # ts) = token_values ts"

text \<open>
  The specification's view of the ANBC test: the class labels predicted for a list of
  input vectors, in order, each prediction starting from the classifier as the
  previous one left it; \<open>None\<close> when some prediction fails. The accuracy is the
  number of positions where the true and the predicted label agree, over the number
  of samples.
\<close>

fun spec_predicted_labels ::
  "('m, 'd, 'w, 'x) anbc_lib \<Rightarrow> 'm \<Rightarrow> 'x list list \<Rightarrow> nat list option"
where
  "spec_predicted_labels lib anbc [] = Some []"
| "spec_predicted_labels lib anbc (x # xs) =
     (case ANBC_predict lib x anbc of
        (ok, anbc') \<Rightarrow>
          if ok then map_option ((#) (ANBC_getPredictedClassLabel lib anbc'))
                       (spec_predicted_labels lib anbc' xs)
          else None)"

definition spec_num_correct :: "nat list \<Rightarrow> nat list \<Rightarrow> nat" where
  "spec_num_correct labels predicted = length (filter (\<lambda>(l, p). l = p) (zip labels predicted))"

definition test_labels :: "('m, 'd, 'w, 'x) anbc_lib \<Rightarrow> 'd \<Rightarrow> nat list" where
  "test_labels lib testData =
     map (ClassificationData_getClassLabel lib testData)
       [0 ..< ClassificationData_getNumSamples lib testData]"

definition test_inputs :: "('m, 'd, 'w, 'x) anbc_lib \<Rightarrow> 'd \<Rightarrow> 'x list list" where
  "test_inputs lib testData =
     map (ClassificationData_getSample lib testData)
       [0 ..< ClassificationData_getNumSamples lib testData]"

text \<open>
  The specification's view of the regression results: the output vectors predicted
  for a list of input vectors, in order; \<open>None\<close> when some prediction fails. A line
  of the results file holds the components of the output vector, then those of the
  target vector, each followed by a tab, and ends with the line terminator.
\<close>

fun spec_predicted_outputs ::
  "('p, 'd, 'w, 'x) regr_lib \<Rightarrow> 'p \<Rightarrow> 'x list list \<Rightarrow> 'x list list option"
where
  "spec_predicted_outputs lib pipeline [] = Some []"
| "spec_predicted_outputs lib pipeline (x # xs) =
     (case Pipeline_predict lib x pipeline of
        (ok, pipeline') \<Rightarrow>
          if ok then map_option ((#) (Pipeline_getRegressionData lib pipeline'))
                       (spec_predicted_outputs lib pipeline' xs)
          else None)"

definition spec_results_line :: "'x list \<Rightarrow> 'x list \<Rightarrow> 'x token list" where
  "spec_results_line outputVector targetVector =
     concat (map (\<lambda>v. [Val v, Str TAB]) (outputVector @ targetVector)) @ [Endl]"

definition regr_test_inputs :: "('p, 'd, 'w, 'x) regr_lib \<Rightarrow> 'd \<Rightarrow> 'x list list" where
  "regr_test_inputs lib testData =
     map (RegressionData_getInputVector lib testData)
       [0 ..< RegressionData_getNumSamples lib testData]"

definition regr_test_targets :: "('p, 'd, 'w, 'x) regr_lib \<Rightarrow> 'd \<Rightarrow> 'x list list" where
  "regr_test_targets lib testData =
     map (RegressionData_getTargetVector lib testData)
       [0 ..< RegressionData_getNumSamples lib testData]"

section \<open>A small instance of the library\<close>

text \<open>
  To run the drivers on concrete inputs, the library parameter is instantiated with a
  toy implementation. Components are integers, the files on disk are an association
  list from file names to dataset contents. A classification dataset is a list of
  labelled samples; the toy classifier predicts the first component of the input as
  the label and fails on an empty input vector. A regression dataset carries its two
  dimension counts and its samples; the toy pipeline echoes its input as the
  regression data and fails on an empty input vector.
\<close>

type_synonym toy_cdata = "(nat \<times> int list) list"

definition toy_anbc_lib :: "(nat, toy_cdata, (string \<times> toy_cdata) list, int) anbc_lib" where
  "toy_anbc_lib =
     \<lparr> ANBC_new = 0,
       ANBC_setNullRejectionCoeff = (\<lambda>c m. m),
       ANBC_enableScaling = (\<lambda>b m. m),
       ANBC_enableNullRejection = (\<lambda>b m. m),
       ClassificationData_new = [],
       ClassificationData_loadDatasetFromFile =
         (\<lambda>name w d. case map_of w name of None \<Rightarrow> (False, d) | Some c \<Rightarrow> (True, c)),
       ClassificationData_partition =
         (\<lambda>p d. (drop (length d * p div 100) d, take (length d * p div 100) d)),
       ClassificationData_getNumSamples = length,
       ClassificationData_getClassLabel = (\<lambda>d i. fst (d ! i)),
       ClassificationData_getSample = (\<lambda>d i. snd (d ! i)),
       ANBC_train = (\<lambda>d m. (d \<noteq> [], m)),
       ANBC_saveModelToFile = (\<lambda>name m w. (True, w)),
       ANBC_loadModelFromFile = (\<lambda>name w m. (True, m)),
       ANBC_predict = (\<lambda>x m. case x of [] \<Rightarrow> (False, m) | v # vs \<Rightarrow> (True, nat v)),
       ANBC_getPredictedClassLabel = (\<lambda>m. m),
       ANBC_getClassLikelihoods = (\<lambda>m. []),
       ANBC_getClassDistances = (\<lambda>m. []) \<rparr>"

record toy_rdata =
  numInputDimensions :: nat
  numTargetDimensions :: nat
  samples :: "(int list \<times> int list) list"

definition toy_regr_lib :: "(int list, toy_rdata, (string \<times> toy_rdata) list, int) regr_lib" where
  "toy_regr_lib =
     \<lparr> RegressionData_new = \<lparr> numInputDimensions = 0, numTargetDimensions = 0, samples = [] \<rparr>,
       RegressionData_loadDatasetFromFile =
         (\<lambda>name w d. case map_of w name of None \<Rightarrow> (False, d) | Some c \<Rightarrow> (True, c)),
       RegressionData_getNumInputDimensions = numInputDimensions,
       RegressionData_getNumTargetDimensions = numTargetDimensions,
       RegressionData_getNumSamples = (\<lambda>d. length (samples d)),
       RegressionData_getInputVector = (\<lambda>d i. fst (samples d ! i)),
       RegressionData_getTargetVector = (\<lambda>d i. snd (samples d ! i)),
       Pipeline_new = [],
       Pipeline_setRegressifier = (\<lambda>p. p),
       Pipeline_train = (\<lambda>d p. (samples d \<noteq> [], p)),
       Pipeline_savePipelineToFile = (\<lambda>name p w. (True, w)),
       Pipeline_loadPipelineFromFile = (\<lambda>name w p. (True, p)),
       Pipeline_test = (\<lambda>d p. (True, p)),
       Pipeline_getTestRMSError = (\<lambda>p. 0),
       Pipeline_predict = (\<lambda>x p. case x of [] \<Rightarrow> (False, p) | v # vs \<Rightarrow> (True, x)),
       Pipeline_getRegressionData = (\<lambda>p. p) \<rparr>"

text \<open>
  Two regression files that agree on the input dimension (2) and differ on the target
  dimension (3 for training, 1 for test).
\<close>

definition toy_regr_files :: "(string \<times> toy_rdata) list" where
  "toy_regr_files =
     [(''MultidimensionalRegressionTrainingData.txt'',
       \<lparr> numInputDimensions = 2, numTargetDimensions = 3,
         samples = [([1, 2], [3, 4, 5])] \<rparr>),
      (''MultidimensionalRegressionTestData.txt'',
       \<lparr> numInputDimensions = 2, numTargetDimensions = 1,
         samples = [([1, 2], [7]), ([3, 4], [8])] \<rparr>)]"

text \<open>
  A test file whose second sample has an empty input vector, on which the toy pipeline
  fails to predict.
\<close>

definition toy_regr_files_bad :: "(string \<times> toy_rdata) list" where
  "toy_regr_files_bad =
     [(''MultidimensionalRegressionTrainingData.txt'',
       \<lparr> numInputDimensions = 2, numTargetDimensions = 1,
         samples = [([1, 2], [3])] \<rparr>),
      (''MultidimensionalRegressionTestData.txt'',
       \<lparr> numInputDimensions = 2, numTargetDimensions = 1,
         samples = [([1, 2], [7]), ([], [8])] \<rparr>)]"

definition toy_anbc_files :: "(string \<times> toy_cdata) list" where
  "toy_anbc_files =
     [(''ANBCTrainingData.txt'',
       [(1, [1, 0]), (2, [2, 0]), (1, [1, 1]), (2, [2, 1]), (1, [2, 2])])]"

text \<open>
  A larger classification file: partition keeps the first eight samples for training,
  the last three are the test set, and the toy classifier gets two of them right.
\<close>

definition toy_cdata_train_8 :: toy_cdata where
  "toy_cdata_train_8 =
     [(5, [5, 0]), (7, [7, 0]), (5, [5, 1]), (7, [7, 1]),
      (5, [5, 2]), (7, [7, 2]), (5, [5, 3]), (7, [7, 3])]"

definition toy_cdata_test_3 :: toy_cdata where
  "toy_cdata_test_3 = [(5, [5]), (7, [5]), (7, [7])]"

definition toy_anbc_files_11 :: "(string \<times> toy_cdata) list" where
  "toy_anbc_files_11 = [(''ANBCTrainingData.txt'', toy_cdata_train_8 @ toy_cdata_test_3)]"

text \<open>
  A classifier that needs no training data: the toy one, except that training
  succeeds on every dataset. With it a data file that holds no sample gets through
  training.
\<close>

definition lenient_anbc_lib ::
  "(nat, toy_cdata, (string \<times> toy_cdata) list, int) anbc_lib"
where
  "lenient_anbc_lib = toy_anbc_lib \<lparr> ANBC_train := (\<lambda>d m. (True, m)) \<rparr>"

definition toy_anbc_files_empty :: "(string \<times> toy_cdata) list" where
  "toy_anbc_files_empty = [(''ANBCTrainingData.txt'', [])]"

text \<open>The two datasets held by \<open>toy_regr_files\<close>.\<close>

definition toy_rdata_train :: toy_rdata where
  "toy_rdata_train =
     \<lparr> numInputDimensions = 2, numTargetDimensions = 3, samples = [([1, 2], [3, 4, 5])] \<rparr>"

definition toy_rdata_test :: toy_rdata where
  "toy_rdata_test =
     \<lparr> numInputDimensions = 2, numTargetDimensions = 1,
       samples = [([1, 2], [7]), ([3, 4], [8])] \<rparr>"

text \<open>
  A pipeline that maps every input vector, the empty one included, and regression
  files whose samples have no input and no target component.
\<close>

definition echo_regr_lib ::
  "(int list, toy_rdata, (string \<times> toy_rdata) list, int) regr_lib"
where
  "echo_regr_lib = toy_regr_lib \<lparr> Pipeline_predict := (\<lambda>x p. (True, x)) \<rparr>"

definition toy_regr_files_no_columns :: "(string \<times> toy_rdata) list" where
  "toy_regr_files_no_columns =
     [(''MultidimensionalRegressionTrainingData.txt'',
       \<lparr> numInputDimensions = 0, numTargetDimensions = 0, samples = [([], [])] \<rparr>),
      (''MultidimensionalRegressionTestData.txt'',
       \<lparr> numInputDimensions = 0, numTargetDimensions = 0,
         samples = [([], []), ([], [])] \<rparr>)]"

section \<open>Rounding to a double\<close>

text \<open>
  Rounding never yields a NaN, and a value in the unit interval stays in it: 0 and 1
  are doubles, and rounding to the nearest double cannot step over them.
\<close>

lemma round_even_le: "x \<le> of_int N \<Longrightarrow> round_even x \<le> N"
proof -
  assume le: "x \<le> of_int N"
  then have f: "\<lfloor>x\<rfloor> \<le> N" by (simp add: floor_le_iff)
  show ?thesis
  proof (cases "x = of_int \<lfloor>x\<rfloor>")
    case True
    then have "x - of_int \<lfloor>x\<rfloor> < 1 / 2" by simp
    with f show ?thesis by (simp add: round_even_def Let_def)
  next
    case False
    with le have "\<lfloor>x\<rfloor> < N"
      by (metis f floor_of_int le_floor_iff less_le order.antisym)
    with f show ?thesis by (simp add: round_even_def Let_def)
  qed
qed

lemma round_even_nonneg: "0 \<le> x \<Longrightarrow> 0 \<le> round_even x"
  by (simp add: round_even_def Let_def)

lemma exponent2_unit: "0 < x \<Longrightarrow> x \<le> 1 \<Longrightarrow> exponent2 x \<le> 0"
proof -
  assume "0 < x" "x \<le> 1"
  show ?thesis
  proof (cases "1 \<le> x")
    case True
    with \<open>x \<le> 1\<close> have "x = 1" by simp
    then show ?thesis by (simp add: exponent2_def compute_floorlog)
  next
    case False
    then show ?thesis by (simp add: exponent2_def)
  qed
qed

lemma round_double_unit:
  assumes "0 \<le> x" and "x \<le> 1"
  shows "\<exists>r. round_double x = Fin r \<and> 0 \<le> r \<and> r \<le> 1"
proof (cases "x = 0")
  case True
  then show ?thesis by (simp add: round_double_def)
next
  case False
  with assms have pos: "0 < x" by simp
  define E where "E = max (exponent2 x) (- 1022)"
  define N :: int where "N = 2 ^ nat (52 - E)"
  define u :: real where "u = 2 powi (E - 52)"
  define r where "r = of_int (round_even (x / u)) * u"
  have E: "E \<le> 0" using exponent2_unit [OF pos assms(2)] by (simp add: E_def)
  then have u: "u = 1 / of_int N"
    by (simp add: u_def N_def power_int_def field_simps nat_diff_distrib) 
  have Npos: "0 < N" by (simp add: N_def)
  have xu: "x / u = x * of_int N" by (simp add: u)
  with assms Npos have "x / u \<le> of_int N" by (simp add: mult_left_le_one_le)
  then have m1: "round_even (x / u) \<le> N" by (rule round_even_le)
  have m0: "0 \<le> round_even (x / u)"
    using assms Npos by (intro round_even_nonneg) (simp add: xu)
  have r: "r = of_int (round_even (x / u)) / of_int N" by (simp add: r_def u)
  from m0 Npos have r0: "0 \<le> r" by (simp add: r)
  from m1 Npos have r1: "r \<le> 1" by (simp add: r)
  have "(1::real) < 2 ^ 1024" by simp
  with r1 have "\<not> 2 ^ 1024 \<le> r" by linarith
  with pos False have "round_double x = Fin r"
    by (simp add: round_double_def Let_def r_def u_def E_def)
  with r0 r1 show ?thesis by blast
qed

lemma round_double_not_NaN: "round_double x \<noteq> NaN"
  by (simp add: round_double_def Let_def)


text \<open>
  The exponent used by the rounding is the binary exponent: the two powers of two
  next to a positive \<open>x\<close> enclose it.
\<close>

lemma pow2_le_real: "2 ^ k \<le> (n::nat) \<Longrightarrow> (2::real) ^ k \<le> real n"
  using of_nat_mono [of "2 ^ k" n, where 'a = real] by simp

lemma less_pow2_real: "(n::nat) < 2 ^ k \<Longrightarrow> real n + 1 \<le> 2 ^ k"
  using of_nat_mono [of "Suc n" "2 ^ k", where 'a = real] by simp

lemma exponent2_bounds:
  assumes "0 < x"
  shows "2 powi exponent2 x \<le> x \<and> x < 2 powi (exponent2 x + 1)"
proof (cases "1 \<le> x")
  case True
  define n where "n = nat \<lfloor>x\<rfloor>"
  have fx: "1 \<le> \<lfloor>x\<rfloor>" using True by simp
  then have rn: "real n = of_int \<lfloor>x\<rfloor>" by (simp add: n_def)
  have n: "0 < n" "real n \<le> x" "x < real n + 1"
  proof -
    show "0 < n" using fx by (simp add: n_def)
    show "real n \<le> x" by (simp add: rn)
    show "x < real n + 1" unfolding rn by linarith
  qed
  from floorlog_bounds [of n 2] n(1)
  have b: "2 ^ (floorlog 2 n - 1) \<le> n" "n < 2 ^ floorlog 2 n" by simp_all
  have fl: "0 < floorlog 2 n" using n(1) by (simp add: floorlog_def)
  have e: "exponent2 x = int (floorlog 2 n - 1)"
    using True fl by (simp add: exponent2_def n_def)
  have e1: "exponent2 x + 1 = int (floorlog 2 n)" using e fl by simp
  from pow2_le_real [OF b(1)] n(2) have lo: "2 powi exponent2 x \<le> x"
    by (simp only: e power_int_of_nat)
  from less_pow2_real [OF b(2)] n(3) have hi: "x < 2 powi (exponent2 x + 1)"
    by (simp only: e1 power_int_of_nat)
  from lo hi show ?thesis ..
next
  case False
  define y where "y = 1 / x"
  define a where "a = nat (\<lceil>y\<rceil> - 1)"
  have y: "1 < y" using False assms by (simp add: y_def)
  then have c: "2 \<le> \<lceil>y\<rceil>" by linarith
  then have ra: "real a = of_int \<lceil>y\<rceil> - 1" by (simp add: a_def)
  have a: "0 < a" "real a < y" "y \<le> real a + 1"
  proof -
    show "0 < a" using c by (simp add: a_def)
    show "real a < y" unfolding ra by linarith
    show "y \<le> real a + 1" unfolding ra by linarith
  qed
  from floorlog_bounds [of a 2] a(1)
  have b: "2 ^ (floorlog 2 a - 1) \<le> a" "a < 2 ^ floorlog 2 a" by simp_all
  have fl: "0 < floorlog 2 a" using a(1) by (simp add: floorlog_def)
  have e: "exponent2 x = - int (floorlog 2 a)"
    using False by (simp add: exponent2_def a_def y_def)
  have e1: "exponent2 x + 1 = - int (floorlog 2 a - 1)" using e fl by simp
  have xy: "x = 1 / y" using assms by (simp add: y_def)
  have ypos: "0 < y" using y by simp
  from less_pow2_real [OF b(2)] a(3) have "y \<le> 2 ^ floorlog 2 a" by simp
  then have "1 / 2 ^ floorlog 2 a \<le> 1 / y"
    using ypos by (intro divide_left_mono) simp_all
  then have lo: "2 powi exponent2 x \<le> x"
    by (simp only: e power_int_minus power_int_of_nat inverse_eq_divide xy [symmetric])
  from pow2_le_real [OF b(1)] a(2) have "2 ^ (floorlog 2 a - 1) < y" by (rule le_less_trans)
  then have "1 / y < 1 / 2 ^ (floorlog 2 a - 1)"
    using ypos by (intro divide_strict_left_mono) simp_all
  then have hi: "x < 2 powi (exponent2 x + 1)"
    by (simp only: e1 power_int_minus power_int_of_nat inverse_eq_divide xy [symmetric])
  from lo hi show ?thesis ..
qed

section \<open>The loops, one iteration at a time\<close>

lemma anbc_loop_done:
  "\<not> i < ClassificationData_getNumSamples lib td \<Longrightarrow>
   anbc_test_loop lib td i m acc = (Some acc, [])"
  by (subst anbc_test_loop.simps) simp

lemma anbc_loop_fail:
  "i < ClassificationData_getNumSamples lib td \<Longrightarrow>
   ANBC_predict lib (ClassificationData_getSample lib td i) m = (False, m') \<Longrightarrow>
   anbc_test_loop lib td i m acc =
     (None,
      [Call (Predict (ClassificationData_getSample lib td i)) False,
       Cout (Str ''Failed to perform prediction for test sampel: ''),
       Cout (UInt i), Cout (Str ''\<newline>'')])"
  by (subst anbc_test_loop.simps) simp

lemma anbc_loop_step:
  "i < ClassificationData_getNumSamples lib td \<Longrightarrow>
   ANBC_predict lib (ClassificationData_getSample lib td i) m = (True, m') \<Longrightarrow>
   anbc_test_loop lib td i m acc =
     (let rest = anbc_test_loop lib td (Suc i) m'
                   (if ClassificationData_getClassLabel lib td i = ANBC_getPredictedClassLabel lib m'
                    then acc + 1 else acc)
      in (fst rest,
          [Call (Predict (ClassificationData_getSample lib td i)) True,
           Cout (Str ''TestSample: ''), Cout (UInt i),
           Cout (Str '' ClassLabel: ''), Cout (UInt (ClassificationData_getClassLabel lib td i)),
           Cout (Str '' PredictedClassLabel: ''), Cout (UInt (ANBC_getPredictedClassLabel lib m')),
           Cout Endl] @ snd rest))"
  by (subst anbc_test_loop.simps) (simp add: Let_def split: prod.splits)

lemma regr_loop_done:
  "\<not> i < RegressionData_getNumSamples lib td \<Longrightarrow>
   regr_results_loop lib td i p = (True, [])"
  by (subst regr_results_loop.simps) simp

lemma regr_loop_fail:
  "i < RegressionData_getNumSamples lib td \<Longrightarrow>
   Pipeline_predict lib (RegressionData_getInputVector lib td i) p = (False, p') \<Longrightarrow>
   regr_results_loop lib td i p =
     (False,
      [Call (Predict (RegressionData_getInputVector lib td i)) False,
       Cout (Str ''ERROR: Failed to map test sample ''), Cout (UInt i), Cout Endl])"
  by (subst regr_results_loop.simps) simp

lemma regr_loop_step:
  "i < RegressionData_getNumSamples lib td \<Longrightarrow>
   Pipeline_predict lib (RegressionData_getInputVector lib td i) p = (True, p') \<Longrightarrow>
   regr_results_loop lib td i p =
     (let rest = regr_results_loop lib td (Suc i) p'
      in (fst rest,
          Call (Predict (RegressionData_getInputVector lib td i)) True #
          write_vector (Pipeline_getRegressionData lib p') @
          write_vector (RegressionData_getTargetVector lib td i) @
          [FileWrite Endl] @ snd rest))"
  by (subst regr_results_loop.simps) (simp add: Let_def split: prod.splits)

lemma fail_fast_no_failure:
  "list_all (\<lambda>e. \<not> call_failed e) es \<Longrightarrow> fail_fast st (es @ es') = fail_fast st es'"
  by (induction st es rule: fail_fast.induct) auto

lemma fail_fast_split:
  "fail_fast st es \<Longrightarrow> es = pre @ Call c False # post \<Longrightarrow>
   st = EXIT_FAILURE \<and> post \<noteq> [] \<and> list_all is_cout post"
proof (induction pre arbitrary: es)
  case Nil
  then show ?case by simp
next
  case (Cons a pre)
  show ?case
  proof (cases "call_failed a")
    case True
    then obtain c' where a: "a = Call c' False" by (cases a) auto
    with Cons.prems have "list_all is_cout (pre @ Call c False # post)" by simp
    then show ?thesis by simp
  next
    case False
    with Cons.prems have "fail_fast st (pre @ Call c False # post)"
      by (cases a) (auto split: if_splits)
    then show ?thesis using Cons.IH by blast
  qed
qed

lemma anbc_loop_fail_fast:
  "anbc_test_loop lib td i m acc = (r, es) \<Longrightarrow>
   (r = None \<longrightarrow> fail_fast EXIT_FAILURE es) \<and>
   (r \<noteq> None \<longrightarrow> list_all (\<lambda>e. \<not> call_failed e) es)"
proof (induction "ClassificationData_getNumSamples lib td - i" arbitrary: i m acc r es)
  case 0
  then have "\<not> i < ClassificationData_getNumSamples lib td" by simp
  from anbc_loop_done [OF this] "0.prems" show ?case by simp
next
  case (Suc k)
  then have lt: "i < ClassificationData_getNumSamples lib td" by simp
  obtain ok m' where p: "ANBC_predict lib (ClassificationData_getSample lib td i) m = (ok, m')"
    by (cases "ANBC_predict lib (ClassificationData_getSample lib td i) m")
  show ?case
  proof (cases ok)
    case False
    with anbc_loop_fail [OF lt, of m m' acc] p Suc.prems show ?thesis by auto
  next
    case True
    define acc' where "acc' = (if ClassificationData_getClassLabel lib td i = ANBC_getPredictedClassLabel lib m'
                    then acc + 1 else acc)"
    obtain r' es' where rest: "anbc_test_loop lib td (Suc i) m' acc' = (r', es')"
      by (cases "anbc_test_loop lib td (Suc i) m' acc'")
    have k: "k = ClassificationData_getNumSamples lib td - Suc i" using Suc.hyps(2) by simp
    from Suc.hyps(1) [OF k rest]
    have ih: "(r' = None \<longrightarrow> fail_fast EXIT_FAILURE es') \<and>
              (r' \<noteq> None \<longrightarrow> list_all (\<lambda>e. \<not> call_failed e) es')" .
    from anbc_loop_step [OF lt, of m m' acc] p True rest Suc.prems
    have "r = r'" and "es = [Call (Predict (ClassificationData_getSample lib td i)) True,
           Cout (Str ''TestSample: ''), Cout (UInt i),
           Cout (Str '' ClassLabel: ''), Cout (UInt (ClassificationData_getClassLabel lib td i)),
           Cout (Str '' PredictedClassLabel: ''), Cout (UInt (ANBC_getPredictedClassLabel lib m')),
           Cout Endl] @ es'"
      by (simp_all add: acc'_def Let_def)
    with ih show ?thesis by simp
  qed
qed

section \<open>Failed calls end the run\<close>

lemma write_vector_no_failure: "list_all (\<lambda>e. \<not> call_failed e) (write_vector v)"
  by (induction v) simp_all

lemma regr_loop_fail_fast:
  "regr_results_loop lib td i p = (r, es) \<Longrightarrow>
   (\<not> r \<longrightarrow> fail_fast EXIT_FAILURE es) \<and>
   (r \<longrightarrow> list_all (\<lambda>e. \<not> call_failed e) es)"
proof (induction "RegressionData_getNumSamples lib td - i" arbitrary: i p r es)
  case 0
  then have "\<not> i < RegressionData_getNumSamples lib td" by simp
  from regr_loop_done [OF this] "0.prems" show ?case by simp
next
  case (Suc k)
  then have lt: "i < RegressionData_getNumSamples lib td" by simp
  obtain ok p' where pr: "Pipeline_predict lib (RegressionData_getInputVector lib td i) p = (ok, p')"
    by (cases "Pipeline_predict lib (RegressionData_getInputVector lib td i) p")
  show ?case
  proof (cases ok)
    case False
    with regr_loop_fail [OF lt, of p p'] pr Suc.prems show ?thesis by auto
  next
    case True
    obtain r' es' where rest: "regr_results_loop lib td (Suc i) p' = (r', es')"
      by (cases "regr_results_loop lib td (Suc i) p'")
    have k: "k = RegressionData_getNumSamples lib td - Suc i" using Suc.hyps(2) by simp
    note ih = Suc.hyps(1) [OF k rest]
    from regr_loop_step [OF lt, of p p'] pr True rest Suc.prems
    have "r = r'" and "es = (Call (Predict (RegressionData_getInputVector lib td i)) True #
          write_vector (Pipeline_getRegressionData lib p') @
          write_vector (RegressionData_getTargetVector lib td i) @
          [FileWrite Endl]) @ es'"
      by (simp_all add: Let_def)
    with ih show ?thesis
      by (simp add: fail_fast_no_failure write_vector_no_failure del: append_assoc)
  qed
qed

lemma anbc_test_fail_fast:
  "fail_fast (fst (anbc_test lib td m)) (snd (anbc_test lib td m))"
proof -
  obtain r es where l: "anbc_test_loop lib td 0 m 0 = (r, es)"
    by (cases "anbc_test_loop lib td 0 m 0")
  from anbc_loop_fail_fast [OF l] l show ?thesis
    by (cases r) (simp_all add: anbc_test_def fail_fast_no_failure)
qed

lemma regr_write_results_fail_fast:
  "fail_fast (fst (regr_write_results lib td p)) (snd (regr_write_results lib td p))"
proof -
  obtain r es where l: "regr_results_loop lib td 0 p = (r, es)"
    by (cases "regr_results_loop lib td 0 p")
  from regr_loop_fail_fast [OF l] l show ?thesis
    by (cases r) (simp_all add: regr_write_results_def fail_fast_no_failure)
qed

lemma anbc_main_fail_fast:
  "fail_fast (fst (anbc_main lib argc argv w)) (snd (anbc_main lib argc argv w))"
  by (simp add: anbc_main_def emit_def Let_def anbc_test_fail_fast split: prod.splits)

lemma regr_main_fail_fast:
  "fail_fast (fst (regr_main lib argc argv w)) (snd (regr_main lib argc argv w))"
  by (simp add: regr_main_def emit_def Let_def regr_write_results_fail_fast split: prod.splits)

lemma fail_fast_success:
  "fail_fast EXIT_SUCCESS es \<Longrightarrow> Call c b \<in> set es \<Longrightarrow> b"
proof (rule ccontr)
  assume ff: "fail_fast EXIT_SUCCESS es" and mem: "Call c b \<in> set es" and nb: "\<not> b"
  from mem nb obtain pre post where "es = pre @ Call c False # post"
    by (auto simp: in_set_conv_decomp)
  from fail_fast_split [OF ff this] show False by simp
qed

section \<open>Properties of the regression driver's dimension checks\<close>

lemma write_vector_no_cout: "Cout t \<notin> set (write_vector v)"
  by (induction v) simp_all

lemma regr_loop_cout:
  "Cout (Str s) \<in> set (snd (regr_results_loop lib td i p)) \<Longrightarrow>
   s = ''ERROR: Failed to map test sample ''"
proof (induction "RegressionData_getNumSamples lib td - i" arbitrary: i p)
  case 0
  then have "\<not> i < RegressionData_getNumSamples lib td" by simp
  from regr_loop_done [OF this] "0.prems" show ?case by simp
next
  case (Suc k)
  then have lt: "i < RegressionData_getNumSamples lib td" by simp
  obtain ok p' where pr: "Pipeline_predict lib (RegressionData_getInputVector lib td i) p = (ok, p')"
    by (cases "Pipeline_predict lib (RegressionData_getInputVector lib td i) p")
  show ?case
  proof (cases ok)
    case False
    with regr_loop_fail [OF lt, of p p'] pr Suc.prems show ?thesis by auto
  next
    case True
    have k: "k = RegressionData_getNumSamples lib td - Suc i" using Suc.hyps(2) by simp
    from regr_loop_step [OF lt, of p p'] pr True Suc.prems
    have "Cout (Str s) \<in> set (snd (regr_results_loop lib td (Suc i) p'))"
      by (simp add: Let_def write_vector_no_cout)
    with Suc.hyps(1) [OF k] show ?thesis by blast
  qed
qed

lemma regr_write_results_cout:
  "Cout (Str s) \<in> set (snd (regr_write_results lib td p)) \<Longrightarrow>
   s = ''ERROR: Failed to map test sample ''"
proof -
  assume a: "Cout (Str s) \<in> set (snd (regr_write_results lib td p))"
  obtain r es where l: "regr_results_loop lib td 0 p = (r, es)"
    by (cases "regr_results_loop lib td 0 p")
  with a have "Cout (Str s) \<in> set (snd (regr_results_loop lib td 0 p))"
    by (cases r) (simp_all add: regr_write_results_def)
  then show ?thesis by (rule regr_loop_cout)
qed

text \<open>
  Claim C8. The second dimension guard of the regression driver compares the target
  dimension of the test data with itself, so no run takes its error branch, whatever
  the library and the two datasets are: neither part of its diagnostic is ever
  printed.
\<close>

theorem regr_main_target_guard_unreachable:
  "Cout (Str ''ERROR: The number of target dimensions in the training data ('')
     \<notin> set (snd (regr_main lib argc argv w)) \<and>
   Cout (Str '' does not match the number of target dimensions in the test data ('')
     \<notin> set (snd (regr_main lib argc argv w))"
  by (auto simp add: regr_main_def emit_def Let_def split: prod.splits
        dest: regr_write_results_cout)

text \<open>
  The first guard does what it is meant to do: when the two datasets load and differ
  in their input dimension, the run ends there, before any train, test or predict
  call.
\<close>

lemma regr_main_input_mismatch_rejected:
  assumes "RegressionData_loadDatasetFromFile lib
             ''MultidimensionalRegressionTrainingData.txt'' w (RegressionData_new lib)
           = (True, trainingData)"
    and "RegressionData_loadDatasetFromFile lib
           ''MultidimensionalRegressionTestData.txt'' w (RegressionData_new lib)
         = (True, testData)"
    and "RegressionData_getNumInputDimensions lib trainingData
         \<noteq> RegressionData_getNumInputDimensions lib testData"
  shows "regr_main lib argc argv w =
    (EXIT_FAILURE,
     [Invoke ''TrainingLog::enableLogging'',
      Call (LoadDatasetFromFile ''MultidimensionalRegressionTrainingData.txt'') True,
      Call (LoadDatasetFromFile ''MultidimensionalRegressionTestData.txt'') True,
      Cout (Str ''ERROR: The number of input dimensions in the training data (''),
      Cout (UInt (RegressionData_getNumInputDimensions lib trainingData)),
      Cout (Str '')''),
      Cout (Str '' does not match the number of input dimensions in the test data (''),
      Cout (UInt (RegressionData_getNumInputDimensions lib testData)),
      Cout (Str '')\<newline>'')])"
  using assms by (simp add: regr_main_def emit_def)

text \<open>
  Claim C1, at an input where it fails. The two toy files agree on the input dimension
  and differ on the target dimension (3 against 1). The regression driver does not
  reject the pair: it goes on to train, test and predict, and returns \<open>EXIT_SUCCESS\<close>.
\<close>

theorem regr_main_target_mismatch_accepted:
  "map_option numTargetDimensions
     (map_of toy_regr_files ''MultidimensionalRegressionTrainingData.txt'') = Some 3 \<and>
   map_option numTargetDimensions
     (map_of toy_regr_files ''MultidimensionalRegressionTestData.txt'') = Some 1 \<and>
   regr_main toy_regr_lib 0 [] toy_regr_files =
     (EXIT_SUCCESS,
  [Invoke ''TrainingLog::enableLogging'',
   Call (LoadDatasetFromFile ''MultidimensionalRegressionTrainingData.txt'')
    True,
   Call (LoadDatasetFromFile ''MultidimensionalRegressionTestData.txt'')
    True,
   Cout (Str ''Training and Test datasets loaded\<newline>''),
   Cout (Str ''Training data stats:\<newline>''),
   Invoke ''RegressionData::printStats'', Cout (Str ''Test data stats:\<newline>''),
   Invoke ''RegressionData::printStats'',
   Invoke ''GestureRecognitionPipeline::setRegressifier'',
   Cout (Str ''Training MultidimensionalRegression model...\<newline>''),
   Call Train True, Cout (Str ''Model trained.\<newline>''),
   Call (SavePipelineToFile ''Pipeline'') True,
   Call (LoadPipelineFromFile ''Pipeline'') True,
   Cout (Str ''Testing MultidimensionalRegression model...\<newline>''),
   Call Test True, Cout (Str ''Test complete. Test RMS error: ''),
   Cout (Val 0), Cout Endl,
   FileOpen ''MultidimensionalRegressionResultsData.txt'',
   Call (Predict [1, 2]) True, FileWrite (Val 1), FileWrite (Str TAB),
   FileWrite (Val 2), FileWrite (Str TAB), FileWrite (Val 7),
   FileWrite (Str TAB), FileWrite Endl, Call (Predict [3, 4]) True,
   FileWrite (Val 3), FileWrite (Str TAB), FileWrite (Val 4),
   FileWrite (Str TAB), FileWrite (Val 8), FileWrite (Str TAB),
   FileWrite Endl, FileClose])"
  by code_simp

section \<open>The error handling of both drivers\<close>

text \<open>
  Claim C2. In a run of either driver, a tested library call (dataset load, train,
  save, load, test, predict, pipeline save and load) that returns \<open>false\<close> is followed
  by console output only, at least one item of it, and the run ends with
  \<open>EXIT_FAILURE\<close>: no library call, tested or not, and no file operation comes after
  it. A run that ends with \<open>EXIT_SUCCESS\<close> has seen \<open>true\<close> from every tested call.
\<close>

theorem drivers_fail_fast:
  "(\<forall>pre c post. snd (anbc_main lib argc argv w) = pre @ Call c False # post \<longrightarrow>
      fst (anbc_main lib argc argv w) = EXIT_FAILURE \<and> post \<noteq> [] \<and> list_all is_cout post) \<and>
   (fst (anbc_main lib argc argv w) = EXIT_SUCCESS \<longrightarrow>
      (\<forall>c b. Call c b \<in> set (snd (anbc_main lib argc argv w)) \<longrightarrow> b)) \<and>
   (\<forall>pre c post. snd (regr_main rlib argc' argv' w') = pre @ Call c False # post \<longrightarrow>
      fst (regr_main rlib argc' argv' w') = EXIT_FAILURE \<and> post \<noteq> [] \<and> list_all is_cout post) \<and>
   (fst (regr_main rlib argc' argv' w') = EXIT_SUCCESS \<longrightarrow>
      (\<forall>c b. Call c b \<in> set (snd (regr_main rlib argc' argv' w')) \<longrightarrow> b))"
proof (intro conjI allI impI)
  fix pre c post
  assume "snd (anbc_main lib argc argv w) = pre @ Call c False # post"
  from fail_fast_split [OF anbc_main_fail_fast this]
  show "fst (anbc_main lib argc argv w) = EXIT_FAILURE" and "post \<noteq> []"
    and "list_all is_cout post" by simp_all
next
  fix c b
  assume "fst (anbc_main lib argc argv w) = EXIT_SUCCESS"
    and "Call c b \<in> set (snd (anbc_main lib argc argv w))"
  with anbc_main_fail_fast [of lib argc argv w] show b
    by (auto dest: fail_fast_success)
next
  fix pre c post
  assume "snd (regr_main rlib argc' argv' w') = pre @ Call c False # post"
  from fail_fast_split [OF regr_main_fail_fast this]
  show "fst (regr_main rlib argc' argv' w') = EXIT_FAILURE" and "post \<noteq> []"
    and "list_all is_cout post" by simp_all
next
  fix c b
  assume "fst (regr_main rlib argc' argv' w') = EXIT_SUCCESS"
    and "Call c b \<in> set (snd (regr_main rlib argc' argv' w'))"
  with regr_main_fail_fast [of rlib argc' argv' w'] show b
    by (auto dest: fail_fast_success)
qed

theorem drivers_fail_fast_witness:
  "(snd (anbc_main toy_anbc_lib 0 [] []) =
      [Invoke ''ANBC::setNullRejectionCoeff'', Invoke ''ANBC::enableScaling'',
       Invoke ''ANBC::enableNullRejection''] @
      Call (LoadDatasetFromFile ''ANBCTrainingData.txt'') False #
      [Cout (Str ''Failed to load training data!\<newline>'')] \<and>
    fst (anbc_main toy_anbc_lib 0 [] []) = EXIT_FAILURE) \<and>
   (fst (anbc_main toy_anbc_lib 0 [] toy_anbc_files) = EXIT_SUCCESS \<and>
    Call (Predict [2, 2]) True \<in> set (snd (anbc_main toy_anbc_lib 0 [] toy_anbc_files))) \<and>
   (snd (regr_main toy_regr_lib 0 [] toy_regr_files_bad) =
      [Invoke ''TrainingLog::enableLogging'',
       Call (LoadDatasetFromFile ''MultidimensionalRegressionTrainingData.txt'') True,
       Call (LoadDatasetFromFile ''MultidimensionalRegressionTestData.txt'') True,
       Cout (Str ''Training and Test datasets loaded\<newline>''),
       Cout (Str ''Training data stats:\<newline>''),
       Invoke ''RegressionData::printStats'', Cout (Str ''Test data stats:\<newline>''),
       Invoke ''RegressionData::printStats'',
       Invoke ''GestureRecognitionPipeline::setRegressifier'',
       Cout (Str ''Training MultidimensionalRegression model...\<newline>''),
       Call Train True, Cout (Str ''Model trained.\<newline>''),
       Call (SavePipelineToFile ''Pipeline'') True,
       Call (LoadPipelineFromFile ''Pipeline'') True,
       Cout (Str ''Testing MultidimensionalRegression model...\<newline>''),
       Call Test True, Cout (Str ''Test complete. Test RMS error: ''),
       Cout (Val 0), Cout Endl,
       FileOpen ''MultidimensionalRegressionResultsData.txt'',
       Call (Predict [1, 2]) True, FileWrite (Val 1), FileWrite (Str TAB),
       FileWrite (Val 2), FileWrite (Str TAB), FileWrite (Val 7),
       FileWrite (Str TAB), FileWrite Endl] @
      Call (Predict []) False #
      [Cout (Str ''ERROR: Failed to map test sample ''), Cout (UInt 1), Cout Endl] \<and>
    fst (regr_main toy_regr_lib 0 [] toy_regr_files_bad) = EXIT_FAILURE) \<and>
   (fst (regr_main toy_regr_lib 0 [] toy_regr_files) = EXIT_SUCCESS \<and>
    Call Test True \<in> set (snd (regr_main toy_regr_lib 0 [] toy_regr_files)))"
proof -
  have a: "snd (anbc_main toy_anbc_lib 0 [] []) =
      [Invoke ''ANBC::setNullRejectionCoeff'', Invoke ''ANBC::enableScaling'',
       Invoke ''ANBC::enableNullRejection''] @
      Call (LoadDatasetFromFile ''ANBCTrainingData.txt'') False #
      [Cout (Str ''Failed to load training data!\<newline>'')]"
    by code_simp
  have b: "fst (anbc_main toy_anbc_lib 0 [] toy_anbc_files) = EXIT_SUCCESS"
    by code_simp
  have c: "Call (Predict [2, 2]) True \<in> set (snd (anbc_main toy_anbc_lib 0 [] toy_anbc_files))"
    by code_simp
  have d: "snd (regr_main toy_regr_lib 0 [] toy_regr_files_bad) =
      [Invoke ''TrainingLog::enableLogging'',
       Call (LoadDatasetFromFile ''MultidimensionalRegressionTrainingData.txt'') True,
       Call (LoadDatasetFromFile ''MultidimensionalRegressionTestData.txt'') True,
       Cout (Str ''Training and Test datasets loaded\<newline>''),
       Cout (Str ''Training data stats:\<newline>''),
       Invoke ''RegressionData::printStats'', Cout (Str ''Test data stats:\<newline>''),
       Invoke ''RegressionData::printStats'',
       Invoke ''GestureRecognitionPipeline::setRegressifier'',
       Cout (Str ''Training MultidimensionalRegression model...\<newline>''),
       Call Train True, Cout (Str ''Model trained.\<newline>''),
       Call (SavePipelineToFile ''Pipeline'') True,
       Call (LoadPipelineFromFile ''Pipeline'') True,
       Cout (Str ''Testing MultidimensionalRegression model...\<newline>''),
       Call Test True, Cout (Str ''Test complete. Test RMS error: ''),
       Cout (Val 0), Cout Endl,
       FileOpen ''MultidimensionalRegressionResultsData.txt'',
       Call (Predict [1, 2]) True, FileWrite (Val 1), FileWrite (Str TAB),
       FileWrite (Val 2), FileWrite (Str TAB), FileWrite (Val 7),
       FileWrite (Str TAB), FileWrite Endl] @
      Call (Predict []) False #
      [Cout (Str ''ERROR: Failed to map test sample ''), Cout (UInt 1), Cout Endl]"
    by code_simp
  have e: "fst (regr_main toy_regr_lib 0 [] toy_regr_files) = EXIT_SUCCESS"
    by code_simp
  have f: "Call Test True \<in> set (snd (regr_main toy_regr_lib 0 [] toy_regr_files))"
    by code_simp
  note fails = drivers_fail_fast [where lib = toy_anbc_lib and argc = 0 and argv = "[]"
      and w = "[]" and rlib = toy_regr_lib and argc' = 0 and argv' = "[]"
      and w' = toy_regr_files_bad]
  note succeeds = drivers_fail_fast [where lib = toy_anbc_lib and argc = 0 and argv = "[]"
      and w = toy_anbc_files and rlib = toy_regr_lib and argc' = 0 and argv' = "[]"
      and w' = toy_regr_files]
  from fails a have a': "fst (anbc_main toy_anbc_lib 0 [] []) = EXIT_FAILURE" by blast
  from fails d have d': "fst (regr_main toy_regr_lib 0 [] toy_regr_files_bad) = EXIT_FAILURE"
    by blast
  from succeeds b c e f a a' d d' show ?thesis by blast
qed

section \<open>The accuracy computed by the ANBC driver\<close>

lemma spec_num_correct_Nil [simp]: "spec_num_correct [] ps = 0"
  by (simp add: spec_num_correct_def)

lemma spec_num_correct_Cons [simp]:
  "spec_num_correct (l # ls) (p # ps) = (if l = p then 1 else 0) + spec_num_correct ls ps"
  by (simp add: spec_num_correct_def)

lemma spec_num_correct_le: "spec_num_correct ls ps \<le> length ls"
proof -
  have "spec_num_correct ls ps \<le> length (zip ls ps)"
    unfolding spec_num_correct_def by (rule length_filter_le)
  then show ?thesis by simp
qed

lemma anbc_loop_counts:
  "spec_predicted_labels lib m
     (map (ClassificationData_getSample lib td) [i ..< ClassificationData_getNumSamples lib td])
     = Some ps \<Longrightarrow>
   \<exists>es. anbc_test_loop lib td i m acc =
     (Some (acc + real (spec_num_correct
        (map (ClassificationData_getClassLabel lib td)
           [i ..< ClassificationData_getNumSamples lib td]) ps)), es)"
proof (induction "ClassificationData_getNumSamples lib td - i" arbitrary: i m acc ps)
  case 0
  then have "\<not> i < ClassificationData_getNumSamples lib td" by simp
  from anbc_loop_done [OF this] this show ?case by simp
next
  case (Suc k)
  then have lt: "i < ClassificationData_getNumSamples lib td" by simp
  have k: "k = ClassificationData_getNumSamples lib td - Suc i" using Suc.hyps(2) by simp
  obtain ok m' where p: "ANBC_predict lib (ClassificationData_getSample lib td i) m = (ok, m')"
    by (cases "ANBC_predict lib (ClassificationData_getSample lib td i) m")
  from Suc.prems lt p have ok: ok
    by (simp add: upt_conv_Cons split: if_splits)
  from Suc.prems lt p ok obtain ps' where
    ps: "ps = ANBC_getPredictedClassLabel lib m' # ps'" and
    rest: "spec_predicted_labels lib m'
      (map (ClassificationData_getSample lib td) [Suc i ..< ClassificationData_getNumSamples lib td])
      = Some ps'"
    by (auto simp add: upt_conv_Cons)
  define acc' where "acc' =
    (if ClassificationData_getClassLabel lib td i = ANBC_getPredictedClassLabel lib m'
     then acc + 1 else acc)"
  from Suc.hyps(1) [OF k rest, of acc'] obtain es' where
    ih: "anbc_test_loop lib td (Suc i) m' acc' =
      (Some (acc' + real (spec_num_correct
        (map (ClassificationData_getClassLabel lib td)
           [Suc i ..< ClassificationData_getNumSamples lib td]) ps')), es')"
    by blast
  from anbc_loop_step [OF lt, of m m' acc] p ok ih
  show ?case
    using lt by (simp add: acc'_def [symmetric] Let_def upt_conv_Cons ps) (simp add: acc'_def)
qed


lemma anbc_loop_bounds:
  "anbc_test_loop lib td i m acc = (Some a, es) \<Longrightarrow>
   acc \<le> a \<and> a \<le> acc + real (ClassificationData_getNumSamples lib td - i)"
proof (induction "ClassificationData_getNumSamples lib td - i" arbitrary: i m acc es)
  case 0
  then have "\<not> i < ClassificationData_getNumSamples lib td" by simp
  from anbc_loop_done [OF this] "0.prems" show ?case by simp
next
  case (Suc k)
  then have lt: "i < ClassificationData_getNumSamples lib td" by simp
  have k: "k = ClassificationData_getNumSamples lib td - Suc i" using Suc.hyps(2) by simp
  obtain ok m' where p: "ANBC_predict lib (ClassificationData_getSample lib td i) m = (ok, m')"
    by (cases "ANBC_predict lib (ClassificationData_getSample lib td i) m")
  show ?case
  proof (cases ok)
    case False
    with anbc_loop_fail [OF lt, of m m' acc] p Suc.prems show ?thesis by simp
  next
    case True
    define acc' where "acc' =
      (if ClassificationData_getClassLabel lib td i = ANBC_getPredictedClassLabel lib m'
       then acc + 1 else acc)"
    obtain r' es' where rest: "anbc_test_loop lib td (Suc i) m' acc' = (r', es')"
      by (cases "anbc_test_loop lib td (Suc i) m' acc'")
    from anbc_loop_step [OF lt, of m m' acc] p True rest Suc.prems
    have "r' = Some a" by (simp add: acc'_def Let_def)
    with rest have "anbc_test_loop lib td (Suc i) m' acc' = (Some a, es')" by simp
    from Suc.hyps(1) [OF k this]
    have "acc' \<le> a" and "a \<le> acc' + real (ClassificationData_getNumSamples lib td - Suc i)"
      by simp_all
    moreover have "acc \<le> acc'" and "acc' \<le> acc + 1" by (simp_all add: acc'_def)
    moreover have "real (ClassificationData_getNumSamples lib td - i)
      = real (ClassificationData_getNumSamples lib td - Suc i) + 1"
      using lt by (simp add: Suc_diff_Suc)
    ultimately show ?thesis by linarith
  qed
qed

lemma ddiv_unit:
  assumes "0 \<le> a" and "a \<le> b" and "0 < b"
  shows "\<exists>r. ddiv a b = Fin r \<and> 0 \<le> r \<and> r \<le> 1"
proof -
  from assms have "0 \<le> a / b" and "a / b \<le> 1" by simp_all
  from round_double_unit [OF this] assms(3) show ?thesis by (simp add: ddiv_def)
qed

lemma anbc_main_reaches_test:
  assumes "ClassificationData_loadDatasetFromFile lib ''ANBCTrainingData.txt'' w
             (ClassificationData_new lib) = (True, data)"
    and "ClassificationData_partition lib 80 data = (testData, trainingData)"
    and "ANBC_train lib trainingData
           (ANBC_enableNullRejection lib True
             (ANBC_enableScaling lib True
               (ANBC_setNullRejectionCoeff lib 10 (ANBC_new lib)))) = (True, anbc1)"
    and "ANBC_saveModelToFile lib ''ANBCModel.txt'' anbc1 w = (True, w1)"
    and "ANBC_loadModelFromFile lib ''ANBCModel.txt'' w1 anbc1 = (True, anbc)"
  shows "anbc_main lib argc argv w =
    (fst (anbc_test lib testData anbc), anbc_setup_events @ snd (anbc_test lib testData anbc))"
  using assms by (simp add: anbc_main_def emit_def anbc_setup_events_def)

text \<open>
  Claim C5, as amended. Take a run of the ANBC driver that gets to its test loop
  (the data file loads, training, saving and reloading the model succeed) with a test
  dataset, the one partition returned, that is not empty and on which all predictions
  succeed. Then the loop leaves in \<open>accuracy\<close> the number of test samples whose
  predicted class label equals their true class label; the quotient
  \<open>accuracy / double(numSamples)\<close> is the double nearest to that number over the
  number of test samples and lies between 0 and 1; the driver prints the quotient
  times 100, rounded again, and returns \<open>EXIT_SUCCESS\<close>.
\<close>

theorem anbc_main_accuracy:
  assumes "ClassificationData_loadDatasetFromFile lib ''ANBCTrainingData.txt'' w
             (ClassificationData_new lib) = (True, data)"
    and "ClassificationData_partition lib 80 data = (testData, trainingData)"
    and "ANBC_train lib trainingData
           (ANBC_enableNullRejection lib True
             (ANBC_enableScaling lib True
               (ANBC_setNullRejectionCoeff lib 10 (ANBC_new lib)))) = (True, anbc1)"
    and "ANBC_saveModelToFile lib ''ANBCModel.txt'' anbc1 w = (True, w1)"
    and "ANBC_loadModelFromFile lib ''ANBCModel.txt'' w1 anbc1 = (True, anbc)"
    and "spec_predicted_labels lib anbc (test_inputs lib testData) = Some predicted"
    and "0 < ClassificationData_getNumSamples lib testData"
  shows "\<exists>es r.
    anbc_test_loop lib testData 0 anbc 0 =
      (Some (real (spec_num_correct (test_labels lib testData) predicted)), es) \<and>
    ddiv (real (spec_num_correct (test_labels lib testData) predicted))
         (real (ClassificationData_getNumSamples lib testData)) = Fin r \<and>
    round_double (real (spec_num_correct (test_labels lib testData) predicted)
                  / real (ClassificationData_getNumSamples lib testData)) = Fin r \<and>
    0 \<le> r \<and> r \<le> 1 \<and>
    anbc_main lib argc argv w =
      (EXIT_SUCCESS,
       anbc_setup_events @ es @
       [Cout (Str ''Test Accuracy: ''), Cout (Dbl (dmul (Fin r) 100)),
        Cout (Str ''%''), Cout Endl])"
proof -
  let ?n = "ClassificationData_getNumSamples lib testData"
  let ?k = "spec_num_correct (test_labels lib testData) predicted"
  have kn: "?k \<le> ?n" using spec_num_correct_le [of "test_labels lib testData" predicted]
    by (simp add: test_labels_def)
  with assms(7) obtain r where
    d: "ddiv (real ?k) (real ?n) = Fin r" and r: "0 \<le> r" "r \<le> 1"
    using ddiv_unit [of "real ?k" "real ?n"] by auto
  from d assms(7) have rd: "round_double (real ?k / real ?n) = Fin r"
    by (simp add: ddiv_def)
  from anbc_loop_counts [of lib anbc testData 0 predicted 0] assms(6)
  obtain es where l: "anbc_test_loop lib testData 0 anbc 0 = (Some (real ?k), es)"
    by (auto simp add: test_inputs_def test_labels_def)
  with d have t: "anbc_test lib testData anbc =
        (EXIT_SUCCESS,
         es @ [Cout (Str ''Test Accuracy: ''), Cout (Dbl (dmul (Fin r) 100)),
               Cout (Str ''%''), Cout Endl])"
    by (simp add: anbc_test_def)
  from anbc_main_reaches_test [OF assms(1-5), of argc argv] t
  have "anbc_main lib argc argv w =
      (EXIT_SUCCESS,
       anbc_setup_events @ es @
       [Cout (Str ''Test Accuracy: ''), Cout (Dbl (dmul (Fin r) 100)),
        Cout (Str ''%''), Cout Endl])"
    by simp
  with l d rd r show ?thesis by blast
qed


lemma toy_anbc_loop_3:
  "anbc_test_loop toy_anbc_lib toy_cdata_test_3 0 0 0 =
     (Some 2,
      [Call (Predict [5]) True,
       Cout (Str ''TestSample: ''), Cout (UInt 0), Cout (Str '' ClassLabel: ''),
       Cout (UInt 5), Cout (Str '' PredictedClassLabel: ''), Cout (UInt 5), Cout Endl,
       Call (Predict [5]) True,
       Cout (Str ''TestSample: ''), Cout (UInt 1), Cout (Str '' ClassLabel: ''),
       Cout (UInt 7), Cout (Str '' PredictedClassLabel: ''), Cout (UInt 5), Cout Endl,
       Call (Predict [7]) True,
       Cout (Str ''TestSample: ''), Cout (UInt 2), Cout (Str '' ClassLabel: ''),
       Cout (UInt 7), Cout (Str '' PredictedClassLabel: ''), Cout (UInt 7), Cout Endl])"
  by code_simp

lemma ddiv_2_3: "ddiv 2 3 = Fin (6004799503160661 / 9007199254740992)"
  by code_simp

lemma dmul_2_3_100:
  "dmul (Fin (6004799503160661 / 9007199254740992)) 100
     = Fin (2345624805922133 / 35184372088832)"
  by code_simp

lemma toy_anbc_setup_11:
  "ClassificationData_loadDatasetFromFile toy_anbc_lib ''ANBCTrainingData.txt''
     toy_anbc_files_11 (ClassificationData_new toy_anbc_lib) =
     (True, toy_cdata_train_8 @ toy_cdata_test_3)"
  "ClassificationData_partition toy_anbc_lib 80 (toy_cdata_train_8 @ toy_cdata_test_3) =
     (toy_cdata_test_3, toy_cdata_train_8)"
  "ANBC_train toy_anbc_lib toy_cdata_train_8
     (ANBC_enableNullRejection toy_anbc_lib True
       (ANBC_enableScaling toy_anbc_lib True
         (ANBC_setNullRejectionCoeff toy_anbc_lib 10 (ANBC_new toy_anbc_lib)))) = (True, 0)"
  "ANBC_saveModelToFile toy_anbc_lib ''ANBCModel.txt'' 0 toy_anbc_files_11
     = (True, toy_anbc_files_11)"
  "ANBC_loadModelFromFile toy_anbc_lib ''ANBCModel.txt'' toy_anbc_files_11 0 = (True, 0)"
  by code_simp+

lemma lenient_anbc_setup_empty:
  "ClassificationData_loadDatasetFromFile lenient_anbc_lib ''ANBCTrainingData.txt''
     toy_anbc_files_empty (ClassificationData_new lenient_anbc_lib) = (True, [])"
  "ClassificationData_partition lenient_anbc_lib 80 [] = ([], [])"
  "ANBC_train lenient_anbc_lib []
     (ANBC_enableNullRejection lenient_anbc_lib True
       (ANBC_enableScaling lenient_anbc_lib True
         (ANBC_setNullRejectionCoeff lenient_anbc_lib 10 (ANBC_new lenient_anbc_lib))))
     = (True, 0)"
  "ANBC_saveModelToFile lenient_anbc_lib ''ANBCModel.txt'' 0 toy_anbc_files_empty
     = (True, toy_anbc_files_empty)"
  "ANBC_loadModelFromFile lenient_anbc_lib ''ANBCModel.txt'' toy_anbc_files_empty 0
     = (True, 0)"
  "ClassificationData_getNumSamples lenient_anbc_lib [] = 0"
  by code_simp+

lemma toy_anbc_test_3_facts:
  "spec_predicted_labels toy_anbc_lib 0
     (test_inputs toy_anbc_lib toy_cdata_test_3) = Some [5, 5, 7]"
  "ClassificationData_getNumSamples toy_anbc_lib toy_cdata_test_3 = 3"
  "spec_num_correct (test_labels toy_anbc_lib toy_cdata_test_3) [5, 5, 7] = 2"
  by code_simp+


lemma toy_anbc_run_11:
  "anbc_main toy_anbc_lib 0 [] toy_anbc_files_11 =
     (EXIT_SUCCESS,
      anbc_setup_events @
      [Call (Predict [5]) True,
       Cout (Str ''TestSample: ''), Cout (UInt 0), Cout (Str '' ClassLabel: ''),
       Cout (UInt 5), Cout (Str '' PredictedClassLabel: ''), Cout (UInt 5), Cout Endl,
       Call (Predict [5]) True,
       Cout (Str ''TestSample: ''), Cout (UInt 1), Cout (Str '' ClassLabel: ''),
       Cout (UInt 7), Cout (Str '' PredictedClassLabel: ''), Cout (UInt 5), Cout Endl,
       Call (Predict [7]) True,
       Cout (Str ''TestSample: ''), Cout (UInt 2), Cout (Str '' ClassLabel: ''),
       Cout (UInt 7), Cout (Str '' PredictedClassLabel: ''), Cout (UInt 7), Cout Endl] @
      [Cout (Str ''Test Accuracy: ''),
       Cout (Dbl (Fin (2345624805922133 / 35184372088832))),
       Cout (Str ''%''), Cout Endl])"
proof -
  have "anbc_test toy_anbc_lib toy_cdata_test_3 0 =
     (EXIT_SUCCESS,
      [Call (Predict [5]) True,
       Cout (Str ''TestSample: ''), Cout (UInt 0), Cout (Str '' ClassLabel: ''),
       Cout (UInt 5), Cout (Str '' PredictedClassLabel: ''), Cout (UInt 5), Cout Endl,
       Call (Predict [5]) True,
       Cout (Str ''TestSample: ''), Cout (UInt 1), Cout (Str '' ClassLabel: ''),
       Cout (UInt 7), Cout (Str '' PredictedClassLabel: ''), Cout (UInt 5), Cout Endl,
       Call (Predict [7]) True,
       Cout (Str ''TestSample: ''), Cout (UInt 2), Cout (Str '' ClassLabel: ''),
       Cout (UInt 7), Cout (Str '' PredictedClassLabel: ''), Cout (UInt 7), Cout Endl] @
      [Cout (Str ''Test Accuracy: ''),
       Cout (Dbl (Fin (2345624805922133 / 35184372088832))),
       Cout (Str ''%''), Cout Endl])"
    by (simp only: anbc_test_def toy_anbc_loop_3 toy_anbc_test_3_facts(2) prod.case
          option.case of_nat_numeral ddiv_2_3 dmul_2_3_100)
  with anbc_main_reaches_test [OF toy_anbc_setup_11, of 0 "[]"] show ?thesis by simp
qed

lemma lenient_anbc_run_empty:
  "anbc_main lenient_anbc_lib 0 [] toy_anbc_files_empty =
     (EXIT_SUCCESS,
      anbc_setup_events @
      [Cout (Str ''Test Accuracy: ''), Cout (Dbl NaN), Cout (Str ''%''), Cout Endl])"
proof -
  have "anbc_test_loop lenient_anbc_lib [] 0 0 0 = (Some 0, [])"
    by (simp add: anbc_loop_done lenient_anbc_setup_empty(6))
  then have "anbc_test lenient_anbc_lib [] 0 =
     (EXIT_SUCCESS,
      [Cout (Str ''Test Accuracy: ''), Cout (Dbl NaN), Cout (Str ''%''), Cout Endl])"
    by (simp add: anbc_test_def lenient_anbc_setup_empty(6) ddiv_def)
  with anbc_main_reaches_test [OF lenient_anbc_setup_empty(1-5), of 0 "[]"]
  show ?thesis by simp
qed

theorem anbc_main_accuracy_witness:
  "spec_predicted_labels toy_anbc_lib 0
     (test_inputs toy_anbc_lib toy_cdata_test_3) = Some [5, 5, 7] \<and>
   0 < ClassificationData_getNumSamples toy_anbc_lib toy_cdata_test_3 \<and>
   (\<exists>es r.
      anbc_test_loop toy_anbc_lib toy_cdata_test_3 0 0 0 = (Some 2, es) \<and>
      ddiv 2 3 = Fin r \<and> r = 6004799503160661 / 9007199254740992 \<and> 0 \<le> r \<and> r \<le> 1 \<and>
      anbc_main toy_anbc_lib 0 [] toy_anbc_files_11 =
        (EXIT_SUCCESS,
         anbc_setup_events @ es @
         [Cout (Str ''Test Accuracy: ''),
          Cout (Dbl (Fin (2345624805922133 / 35184372088832))),
          Cout (Str ''%''), Cout Endl]))"
proof -
  have n: "0 < ClassificationData_getNumSamples toy_anbc_lib toy_cdata_test_3"
    by (simp add: toy_anbc_test_3_facts(2))
  from anbc_main_accuracy [OF toy_anbc_setup_11 toy_anbc_test_3_facts(1) n, of 0 "[]"]
  obtain es r where
    l: "anbc_test_loop toy_anbc_lib toy_cdata_test_3 0 0 0 = (Some 2, es)" and
    d: "ddiv 2 3 = Fin r" and r: "0 \<le> r" "r \<le> 1" and
    m: "anbc_main toy_anbc_lib 0 [] toy_anbc_files_11 =
      (EXIT_SUCCESS,
       anbc_setup_events @ es @
       [Cout (Str ''Test Accuracy: ''), Cout (Dbl (dmul (Fin r) 100)),
        Cout (Str ''%''), Cout Endl])"
    by (auto simp add: toy_anbc_test_3_facts)
  from d have rv: "r = 6004799503160661 / 9007199254740992" by (simp add: ddiv_2_3)
  from m have "anbc_main toy_anbc_lib 0 [] toy_anbc_files_11 =
      (EXIT_SUCCESS,
       anbc_setup_events @ es @
       [Cout (Str ''Test Accuracy: ''),
        Cout (Dbl (Fin (2345624805922133 / 35184372088832))),
        Cout (Str ''%''), Cout Endl])"
    unfolding rv dmul_2_3_100 .
  with toy_anbc_test_3_facts(1) n l d rv r show ?thesis by blast
qed

text \<open>
  Claim C5 as stated fails in two ways. With a classifier that trains on no data and a
  data file without samples, the test set is empty, the loop is skipped and the
  quotient is \<open>0 / 0\<close>: not a number, so not in the unit interval, and the driver
  prints it. And with two of three test samples right, the quotient the driver
  computes is the double nearest to two thirds, which is not two thirds.
\<close>

theorem anbc_accuracy_counterexample:
  "anbc_main lenient_anbc_lib 0 [] toy_anbc_files_empty =
     (EXIT_SUCCESS,
      anbc_setup_events @
      [Cout (Str ''Test Accuracy: ''), Cout (Dbl NaN), Cout (Str ''%''), Cout Endl]) \<and>
   ddiv 0 (real (ClassificationData_getNumSamples lenient_anbc_lib [])) = NaN \<and>
   \<not> in_unit_interval (ddiv 0 (real (ClassificationData_getNumSamples lenient_anbc_lib []))) \<and>
   anbc_main toy_anbc_lib 0 [] toy_anbc_files_11 =
     (EXIT_SUCCESS,
      anbc_setup_events @
      [Call (Predict [5]) True,
       Cout (Str ''TestSample: ''), Cout (UInt 0), Cout (Str '' ClassLabel: ''),
       Cout (UInt 5), Cout (Str '' PredictedClassLabel: ''), Cout (UInt 5), Cout Endl,
       Call (Predict [5]) True,
       Cout (Str ''TestSample: ''), Cout (UInt 1), Cout (Str '' ClassLabel: ''),
       Cout (UInt 7), Cout (Str '' PredictedClassLabel: ''), Cout (UInt 5), Cout Endl,
       Call (Predict [7]) True,
       Cout (Str ''TestSample: ''), Cout (UInt 2), Cout (Str '' ClassLabel: ''),
       Cout (UInt 7), Cout (Str '' PredictedClassLabel: ''), Cout (UInt 7), Cout Endl] @
      [Cout (Str ''Test Accuracy: ''),
       Cout (Dbl (Fin (2345624805922133 / 35184372088832))),
       Cout (Str ''%''), Cout Endl]) \<and>
   ddiv 2 3 = Fin (6004799503160661 / 9007199254740992) \<and>
   ddiv 2 3 \<noteq> Fin (2 / 3)"
proof -
  have "ddiv 0 (real (ClassificationData_getNumSamples lenient_anbc_lib [])) = NaN"
    by (simp add: lenient_anbc_setup_empty(6) ddiv_def)
  moreover have "ddiv 2 3 \<noteq> Fin (2 / 3)" by (simp add: ddiv_2_3)
  ultimately show ?thesis
    using lenient_anbc_run_empty toy_anbc_run_11 ddiv_2_3 by simp
qed

text \<open>
  Claim C9. Take a run of the ANBC driver that gets to its test loop. When the test
  dataset that partition returned has no samples, the loop runs zero times (no
  prediction is made, \<open>accuracy\<close> is still 0) and the accuracy expression divides
  zero by zero: there is no guard, the result is not a number, and the driver prints
  it and returns \<open>EXIT_SUCCESS\<close>. Whenever the loop runs to its end, the driver
  prints the quotient of \<open>accuracy\<close> by the number of test samples, times 100, and
  that quotient is a finite number exactly when the test dataset is not empty.
\<close>

theorem anbc_main_zero_samples:
  assumes "ClassificationData_loadDatasetFromFile lib ''ANBCTrainingData.txt'' w
             (ClassificationData_new lib) = (True, data)"
    and "ClassificationData_partition lib 80 data = (testData, trainingData)"
    and "ANBC_train lib trainingData
           (ANBC_enableNullRejection lib True
             (ANBC_enableScaling lib True
               (ANBC_setNullRejectionCoeff lib 10 (ANBC_new lib)))) = (True, anbc1)"
    and "ANBC_saveModelToFile lib ''ANBCModel.txt'' anbc1 w = (True, w1)"
    and "ANBC_loadModelFromFile lib ''ANBCModel.txt'' w1 anbc1 = (True, anbc)"
  shows "(ClassificationData_getNumSamples lib testData = 0 \<longrightarrow>
      anbc_test_loop lib testData 0 anbc 0 = (Some 0, []) \<and>
      ddiv 0 (real (ClassificationData_getNumSamples lib testData)) = NaN \<and>
      anbc_main lib argc argv w =
        (EXIT_SUCCESS,
         anbc_setup_events @
         [Cout (Str ''Test Accuracy: ''), Cout (Dbl NaN), Cout (Str ''%''), Cout Endl])) \<and>
    (\<forall>accuracy es.
       anbc_test_loop lib testData 0 anbc 0 = (Some accuracy, es) \<longrightarrow>
       anbc_main lib argc argv w =
         (EXIT_SUCCESS,
          anbc_setup_events @ es @
          [Cout (Str ''Test Accuracy: ''),
           Cout (Dbl (dmul (ddiv accuracy
                              (real (ClassificationData_getNumSamples lib testData))) 100)),
           Cout (Str ''%''), Cout Endl]) \<and>
       ((\<exists>r. ddiv accuracy (real (ClassificationData_getNumSamples lib testData)) = Fin r)
          = (ClassificationData_getNumSamples lib testData \<noteq> 0)))"
proof (intro conjI impI allI)
  note link = anbc_main_reaches_test [OF assms, of argc argv]
  {
    assume n: "ClassificationData_getNumSamples lib testData = 0"
    then show l: "anbc_test_loop lib testData 0 anbc 0 = (Some 0, [])"
      by (simp add: anbc_loop_done)
    from n show "ddiv 0 (real (ClassificationData_getNumSamples lib testData)) = NaN"
      by (simp add: ddiv_def)
    from n l have "anbc_test lib testData anbc =
        (EXIT_SUCCESS,
         [Cout (Str ''Test Accuracy: ''), Cout (Dbl NaN), Cout (Str ''%''), Cout Endl])"
      by (simp add: anbc_test_def ddiv_def)
    with link show "anbc_main lib argc argv w =
        (EXIT_SUCCESS,
         anbc_setup_events @
         [Cout (Str ''Test Accuracy: ''), Cout (Dbl NaN), Cout (Str ''%''), Cout Endl])"
      by simp
  }
  fix accuracy es
  assume l: "anbc_test_loop lib testData 0 anbc 0 = (Some accuracy, es)"
  then have "anbc_test lib testData anbc =
         (EXIT_SUCCESS,
          es @
          [Cout (Str ''Test Accuracy: ''),
           Cout (Dbl (dmul (ddiv accuracy
                              (real (ClassificationData_getNumSamples lib testData))) 100)),
           Cout (Str ''%''), Cout Endl])"
    by (simp add: anbc_test_def)
  with link show "anbc_main lib argc argv w =
         (EXIT_SUCCESS,
          anbc_setup_events @ es @
          [Cout (Str ''Test Accuracy: ''),
           Cout (Dbl (dmul (ddiv accuracy
                              (real (ClassificationData_getNumSamples lib testData))) 100)),
           Cout (Str ''%''), Cout Endl])"
    by simp
  from anbc_loop_bounds [OF l]
  have b: "0 \<le> accuracy" "accuracy \<le> real (ClassificationData_getNumSamples lib testData)"
    by simp_all
  show "(\<exists>r. ddiv accuracy (real (ClassificationData_getNumSamples lib testData)) = Fin r)
          = (ClassificationData_getNumSamples lib testData \<noteq> 0)"
  proof (cases "ClassificationData_getNumSamples lib testData = 0")
    case True
    with b have "accuracy = 0" by simp
    with True show ?thesis by (simp add: ddiv_def)
  next
    case False
    then have "0 < real (ClassificationData_getNumSamples lib testData)" by simp
    from ddiv_unit [OF b this] False show ?thesis by blast
  qed
qed

theorem anbc_main_zero_samples_witness:
  "ClassificationData_getNumSamples lenient_anbc_lib [] = 0 \<and>
   anbc_main lenient_anbc_lib 0 [] toy_anbc_files_empty =
     (EXIT_SUCCESS,
      anbc_setup_events @
      [Cout (Str ''Test Accuracy: ''), Cout (Dbl NaN), Cout (Str ''%''), Cout Endl]) \<and>
   ClassificationData_getNumSamples toy_anbc_lib toy_cdata_test_3 \<noteq> 0 \<and>
   (\<exists>r. ddiv 2 (real (ClassificationData_getNumSamples toy_anbc_lib
                         toy_cdata_test_3)) = Fin r)"
proof -
  note n0 = lenient_anbc_setup_empty(6)
  from anbc_main_zero_samples [OF lenient_anbc_setup_empty(1-5), of 0 "[]"] n0
  have a: "anbc_main lenient_anbc_lib 0 [] toy_anbc_files_empty =
     (EXIT_SUCCESS,
      anbc_setup_events @
      [Cout (Str ''Test Accuracy: ''), Cout (Dbl NaN), Cout (Str ''%''), Cout Endl])"
    by blast
  have n3: "ClassificationData_getNumSamples toy_anbc_lib toy_cdata_test_3 \<noteq> 0"
    by (simp add: toy_anbc_test_3_facts(2))
  from anbc_main_zero_samples [OF toy_anbc_setup_11, of 0 "[]"] toy_anbc_loop_3 n3
  have b: "\<exists>r. ddiv 2 (real (ClassificationData_getNumSamples toy_anbc_lib
                         toy_cdata_test_3)) = Fin r"
    by blast
  from n0 a n3 b show ?thesis by blast
qed

section \<open>The results file of the regression driver\<close>

lemma file_written_append: "file_written (es @ es') = file_written es @ file_written es'"
  by (induction es rule: file_written.induct) simp_all

lemma file_written_write_vector:
  "file_written (write_vector vs) = concat (map (\<lambda>v. [Val v, Str TAB]) vs)"
  by (induction vs) simp_all

lemma regr_loop_lines:
  "spec_predicted_outputs lib p
     (map (RegressionData_getInputVector lib td) [i ..< RegressionData_getNumSamples lib td])
     = Some outs \<Longrightarrow>
   fst (regr_results_loop lib td i p) \<and>
   file_written (snd (regr_results_loop lib td i p)) =
     concat (map2 spec_results_line outs
       (map (RegressionData_getTargetVector lib td) [i ..< RegressionData_getNumSamples lib td])) \<and>
   length outs = RegressionData_getNumSamples lib td - i"
proof (induction "RegressionData_getNumSamples lib td - i" arbitrary: i p outs)
  case 0
  then have "\<not> i < RegressionData_getNumSamples lib td" by simp
  from regr_loop_done [OF this] this "0.prems" show ?case by auto
next
  case (Suc k)
  then have lt: "i < RegressionData_getNumSamples lib td" by simp
  have k: "k = RegressionData_getNumSamples lib td - Suc i" using Suc.hyps(2) by simp
  obtain ok p' where pr: "Pipeline_predict lib (RegressionData_getInputVector lib td i) p = (ok, p')"
    by (cases "Pipeline_predict lib (RegressionData_getInputVector lib td i) p")
  from Suc.prems lt pr have ok: ok
    by (simp add: upt_conv_Cons split: if_splits)
  from Suc.prems lt pr ok obtain outs' where
    outs: "outs = Pipeline_getRegressionData lib p' # outs'" and
    rest: "spec_predicted_outputs lib p'
      (map (RegressionData_getInputVector lib td) [Suc i ..< RegressionData_getNumSamples lib td])
      = Some outs'"
    by (auto simp add: upt_conv_Cons)
  note ih = Suc.hyps(1) [OF k rest]
  from regr_loop_step [OF lt, of p p'] pr ok
  have step: "regr_results_loop lib td i p =
      (fst (regr_results_loop lib td (Suc i) p'),
       Call (Predict (RegressionData_getInputVector lib td i)) True #
       write_vector (Pipeline_getRegressionData lib p') @
       write_vector (RegressionData_getTargetVector lib td i) @
       [FileWrite Endl] @ snd (regr_results_loop lib td (Suc i) p'))"
    by (simp add: Let_def)
  from ih lt show ?case
    by (simp add: step outs upt_conv_Cons file_written_append file_written_write_vector
        spec_results_line_def)
qed

lemma spec_results_line_one_Endl:
  "length (filter (\<lambda>t. t = Endl) (spec_results_line out tgt)) = 1"
proof -
  have "filter (\<lambda>t. t = Endl) (concat (map (\<lambda>v. [Val v, Str TAB]) vs)) = []" for vs :: "'a list"
    by (induction vs) simp_all
  then show ?thesis by (simp add: spec_results_line_def)
qed

lemma count_Endl_lines:
  "length (filter (\<lambda>t. t = Endl) (concat (map2 spec_results_line outs tgts)))
     = min (length outs) (length tgts)"
proof (induction outs arbitrary: tgts)
  case Nil
  then show ?case by simp
next
  case (Cons out outs)
  then show ?case by (cases tgts) (simp_all add: spec_results_line_one_Endl)
qed

lemma tabbed_no_Endl: "Endl \<notin> set (concat (map (\<lambda>v. [Val v, Str TAB]) vs))"
  by (induction vs) simp_all

lemma tabbed_values: "token_values (concat (map (\<lambda>v. [Val v, Str TAB]) vs) @ [Endl]) = vs"
  by (induction vs) simp_all

lemma tabbed_value_then_tab:
  "j < length (concat (map (\<lambda>v. [Val v, Str TAB]) vs) @ [Endl]) \<Longrightarrow>
   (concat (map (\<lambda>v. [Val v, Str TAB]) vs) @ [Endl]) ! j = Val x \<Longrightarrow>
   Suc j < length (concat (map (\<lambda>v. [Val v, Str TAB]) vs) @ [Endl]) \<and>
   (concat (map (\<lambda>v. [Val v, Str TAB]) vs) @ [Endl]) ! Suc j = Str TAB"
proof (induction vs arbitrary: j)
  case Nil
  then show ?case by simp
next
  case (Cons a vs)
  show ?case
  proof (cases j)
    case 0
    then show ?thesis by simp
  next
    case (Suc j')
    show ?thesis
    proof (cases j')
      case 0
      with Suc Cons.prems show ?thesis by simp
    next
      case (Suc j'')
      with \<open>j = Suc j'\<close> Cons.prems Cons.IH [of j''] show ?thesis by simp
    qed
  qed
qed

lemma tabbed_trailing_tab:
  "vs \<noteq> [] \<Longrightarrow>
   \<exists>pre. concat (map (\<lambda>v. [Val v, Str TAB]) vs) @ [Endl] = pre @ [Str TAB, Endl]"
proof (cases vs rule: rev_cases)
  case Nil
  moreover assume "vs \<noteq> []"
  ultimately show ?thesis by simp
next
  case (snoc ys y)
  then have "concat (map (\<lambda>v. [Val v, Str TAB]) vs) @ [Endl] =
    (concat (map (\<lambda>v. [Val v, Str TAB]) ys) @ [Val y]) @ [Str TAB, Endl]"
    by simp
  then show ?thesis by blast
qed


lemma regr_main_reaches_results:
  assumes "RegressionData_loadDatasetFromFile lib
             ''MultidimensionalRegressionTrainingData.txt'' w (RegressionData_new lib)
           = (True, trainingData)"
    and "RegressionData_loadDatasetFromFile lib
           ''MultidimensionalRegressionTestData.txt'' w (RegressionData_new lib)
         = (True, testData)"
    and "RegressionData_getNumInputDimensions lib trainingData
         = RegressionData_getNumInputDimensions lib testData"
    and "Pipeline_train lib trainingData (Pipeline_setRegressifier lib (Pipeline_new lib))
         = (True, pipeline1)"
    and "Pipeline_savePipelineToFile lib ''Pipeline'' pipeline1 w = (True, w1)"
    and "Pipeline_loadPipelineFromFile lib ''Pipeline'' w1 pipeline1 = (True, pipeline2)"
    and "Pipeline_test lib testData pipeline2 = (True, pipeline)"
  shows "regr_main lib argc argv w =
    (fst (regr_write_results lib testData pipeline),
     regr_setup_events (Pipeline_getTestRMSError lib pipeline) @
     snd (regr_write_results lib testData pipeline))"
  using assms by (simp add: regr_main_def emit_def regr_setup_events_def)

lemma file_written_regr_setup_events: "file_written (regr_setup_events rms) = []"
  by (simp add: regr_setup_events_def)

lemma file_written_regr_write_results:
  "file_written (snd (regr_write_results lib td p))
     = file_written (snd (regr_results_loop lib td 0 p))"
proof -
  obtain r es where l: "regr_results_loop lib td 0 p = (r, es)"
    by (cases "regr_results_loop lib td 0 p")
  then show ?thesis
    by (cases r) (simp_all add: regr_write_results_def file_written_append)
qed

text \<open>
  Claim C6. Take a run of the regression driver that gets to its results loop (both
  datasets load with equal input dimensions; training, saving, reloading and testing
  the pipeline succeed) and in which all predictions on the test dataset succeed.
  The driver then returns \<open>EXIT_SUCCESS\<close>, having opened the results file, written to
  it one line per test sample in sample order, and closed it: the file is the
  concatenation, over the samples from first to last, of the line made of the
  components of the predicted output vector followed by those of the sample's target
  vector, each component followed by a tab, and it holds as many line terminators as
  there are samples.
\<close>

theorem regr_main_results_file:
  assumes "RegressionData_loadDatasetFromFile lib
             ''MultidimensionalRegressionTrainingData.txt'' w (RegressionData_new lib)
           = (True, trainingData)"
    and "RegressionData_loadDatasetFromFile lib
           ''MultidimensionalRegressionTestData.txt'' w (RegressionData_new lib)
         = (True, testData)"
    and "RegressionData_getNumInputDimensions lib trainingData
         = RegressionData_getNumInputDimensions lib testData"
    and "Pipeline_train lib trainingData (Pipeline_setRegressifier lib (Pipeline_new lib))
         = (True, pipeline1)"
    and "Pipeline_savePipelineToFile lib ''Pipeline'' pipeline1 w = (True, w1)"
    and "Pipeline_loadPipelineFromFile lib ''Pipeline'' w1 pipeline1 = (True, pipeline2)"
    and "Pipeline_test lib testData pipeline2 = (True, pipeline)"
    and "spec_predicted_outputs lib pipeline (regr_test_inputs lib testData) = Some outputs"
  shows "fst (regr_main lib argc argv w) = EXIT_SUCCESS \<and>
    (\<exists>es. snd (regr_main lib argc argv w) =
       regr_setup_events (Pipeline_getTestRMSError lib pipeline) @
       FileOpen ''MultidimensionalRegressionResultsData.txt'' # es @ [FileClose]) \<and>
    file_written (snd (regr_main lib argc argv w)) =
      concat (map2 spec_results_line outputs (regr_test_targets lib testData)) \<and>
    length outputs = RegressionData_getNumSamples lib testData \<and>
    length (regr_test_targets lib testData) = RegressionData_getNumSamples lib testData \<and>
    length (filter (\<lambda>t. t = Endl) (file_written (snd (regr_main lib argc argv w))))
      = RegressionData_getNumSamples lib testData"
proof -
  note link = regr_main_reaches_results [OF assms(1-7), of argc argv]
  obtain r es where l: "regr_results_loop lib testData 0 pipeline = (r, es)"
    by (cases "regr_results_loop lib testData 0 pipeline")
  from regr_loop_lines [of lib pipeline testData 0 outputs] assms(8) l
  have r: r
    and f: "file_written es = concat (map2 spec_results_line outputs (regr_test_targets lib testData))"
    and n: "length outputs = RegressionData_getNumSamples lib testData"
    by (simp_all add: regr_test_inputs_def regr_test_targets_def)
  have t: "length (regr_test_targets lib testData) = RegressionData_getNumSamples lib testData"
    by (simp add: regr_test_targets_def)
  from l r have w: "regr_write_results lib testData pipeline =
      (EXIT_SUCCESS, FileOpen ''MultidimensionalRegressionResultsData.txt'' # es @ [FileClose])"
    by (simp add: regr_write_results_def)
  from link w have m: "regr_main lib argc argv w =
      (EXIT_SUCCESS,
       regr_setup_events (Pipeline_getTestRMSError lib pipeline) @
       FileOpen ''MultidimensionalRegressionResultsData.txt'' # es @ [FileClose])"
    by simp
  have fw: "file_written (snd (regr_main lib argc argv w)) = file_written es"
    by (simp add: m file_written_append file_written_regr_setup_events)
  have c: "length (filter (\<lambda>t. t = Endl) (file_written es)) = RegressionData_getNumSamples lib testData"
    by (simp add: f count_Endl_lines n t)
  from m fw f n t c show ?thesis by simp
qed

lemma toy_regr_setup:
  "RegressionData_loadDatasetFromFile toy_regr_lib
     ''MultidimensionalRegressionTrainingData.txt'' toy_regr_files
     (RegressionData_new toy_regr_lib) = (True, toy_rdata_train)"
  "RegressionData_loadDatasetFromFile toy_regr_lib
     ''MultidimensionalRegressionTestData.txt'' toy_regr_files
     (RegressionData_new toy_regr_lib) = (True, toy_rdata_test)"
  "RegressionData_getNumInputDimensions toy_regr_lib toy_rdata_train
     = RegressionData_getNumInputDimensions toy_regr_lib toy_rdata_test"
  "Pipeline_train toy_regr_lib toy_rdata_train
     (Pipeline_setRegressifier toy_regr_lib (Pipeline_new toy_regr_lib)) = (True, [])"
  "Pipeline_savePipelineToFile toy_regr_lib ''Pipeline'' [] toy_regr_files
     = (True, toy_regr_files)"
  "Pipeline_loadPipelineFromFile toy_regr_lib ''Pipeline'' toy_regr_files [] = (True, [])"
  "Pipeline_test toy_regr_lib toy_rdata_test [] = (True, [])"
  "spec_predicted_outputs toy_regr_lib [] (regr_test_inputs toy_regr_lib toy_rdata_test)
     = Some [[1, 2], [3, 4]]"
  by code_simp+

theorem regr_main_results_file_witness:
  "spec_predicted_outputs toy_regr_lib [] (regr_test_inputs toy_regr_lib toy_rdata_test)
     = Some [[1, 2], [3, 4]] \<and>
   fst (regr_main toy_regr_lib 0 [] toy_regr_files) = EXIT_SUCCESS \<and>
   file_written (snd (regr_main toy_regr_lib 0 [] toy_regr_files)) =
     [Val 1, Str TAB, Val 2, Str TAB, Val 7, Str TAB, Endl,
      Val 3, Str TAB, Val 4, Str TAB, Val 8, Str TAB, Endl]"
proof -
  have e: "concat (map2 spec_results_line [[1, 2], [3, 4]]
             (regr_test_targets toy_regr_lib toy_rdata_test)) =
     [Val 1, Str TAB, Val 2, Str TAB, Val 7, Str TAB, Endl,
      Val 3, Str TAB, Val 4, Str TAB, Val 8, Str TAB, Endl]"
    by code_simp
  from regr_main_results_file [OF toy_regr_setup, of 0 "[]"]
  have "fst (regr_main toy_regr_lib 0 [] toy_regr_files) = EXIT_SUCCESS"
    and "file_written (snd (regr_main toy_regr_lib 0 [] toy_regr_files)) =
      concat (map2 spec_results_line [[1, 2], [3, 4]]
        (regr_test_targets toy_regr_lib toy_rdata_test))"
    by blast+
  with e toy_regr_setup(8) show ?thesis by (simp only:) 
qed


lemma regr_loop_any_lines:
  "\<exists>vss. file_written (snd (regr_results_loop lib td i p)) =
     concat (map (\<lambda>vs. concat (map (\<lambda>v. [Val v, Str TAB]) vs) @ [Endl]) vss)"
proof (induction "RegressionData_getNumSamples lib td - i" arbitrary: i p)
  case 0
  then have "\<not> i < RegressionData_getNumSamples lib td" by simp
  from regr_loop_done [OF this, of p]
  have "file_written (snd (regr_results_loop lib td i p)) =
     concat (map (\<lambda>vs. concat (map (\<lambda>v. [Val v, Str TAB]) vs) @ [Endl]) [])"
    by simp
  then show ?case by blast
next
  case (Suc k)
  then have lt: "i < RegressionData_getNumSamples lib td" by simp
  have k: "k = RegressionData_getNumSamples lib td - Suc i" using Suc.hyps(2) by simp
  obtain ok p' where pr: "Pipeline_predict lib (RegressionData_getInputVector lib td i) p = (ok, p')"
    by (cases "Pipeline_predict lib (RegressionData_getInputVector lib td i) p")
  show ?case
  proof (cases ok)
    case False
    with regr_loop_fail [OF lt, of p p'] pr
    have "file_written (snd (regr_results_loop lib td i p)) =
       concat (map (\<lambda>vs. concat (map (\<lambda>v. [Val v, Str TAB]) vs) @ [Endl]) [])"
      by simp
    then show ?thesis by blast
  next
    case True
    from Suc.hyps(1) [OF k, of p'] obtain vss where
      ih: "file_written (snd (regr_results_loop lib td (Suc i) p')) =
         concat (map (\<lambda>vs. concat (map (\<lambda>v. [Val v, Str TAB]) vs) @ [Endl]) vss)"
      by blast
    from regr_loop_step [OF lt, of p p'] pr True
    have "file_written (snd (regr_results_loop lib td i p)) =
       concat (map (\<lambda>vs. concat (map (\<lambda>v. [Val v, Str TAB]) vs) @ [Endl])
         ((Pipeline_getRegressionData lib p' @ RegressionData_getTargetVector lib td i) # vss))"
      by (simp add: Let_def file_written_append file_written_write_vector ih)
    then show ?thesis by blast
  qed
qed

lemma regr_main_file_cases:
  "file_written (snd (regr_main lib argc argv w)) = [] \<or>
   (\<exists>td p. file_written (snd (regr_main lib argc argv w))
      = file_written (snd (regr_results_loop lib td 0 p)))"
  by (auto simp add: regr_main_def emit_def Let_def file_written_append
        file_written_regr_write_results split: prod.splits)

lemma regr_main_any_lines:
  "\<exists>vss. file_written (snd (regr_main lib argc argv w)) =
     concat (map (\<lambda>vs. concat (map (\<lambda>v. [Val v, Str TAB]) vs) @ [Endl]) vss)"
proof -
  from regr_main_file_cases [of lib argc argv w] show ?thesis
  proof
    assume "file_written (snd (regr_main lib argc argv w)) = []"
    then have "file_written (snd (regr_main lib argc argv w)) =
       concat (map (\<lambda>vs. concat (map (\<lambda>v. [Val v, Str TAB]) vs) @ [Endl]) [])"
      by simp
    then show ?thesis by blast
  next
    assume "\<exists>td p. file_written (snd (regr_main lib argc argv w))
      = file_written (snd (regr_results_loop lib td 0 p))"
    then obtain td p where "file_written (snd (regr_main lib argc argv w))
      = file_written (snd (regr_results_loop lib td 0 p))" by blast
    with regr_loop_any_lines [of lib td 0 p] show ?thesis by simp
  qed
qed

text \<open>
  Claim C10, as amended. In every run of the regression driver the results file, as
  far as it has been written, splits into lines that each end with their only line
  terminator. On every line each numeric value is immediately followed by a tab, and a
  line is either the terminator alone or holds a value; so every line that holds a
  value ends with a tab immediately before the line terminator.
\<close>

theorem regr_main_trailing_tab:
  "\<exists>lines.
     file_written (snd (regr_main lib argc argv w)) = concat lines \<and>
     (\<forall>l \<in> set lines.
        l \<noteq> [] \<and> last l = Endl \<and> Endl \<notin> set (butlast l) \<and>
        (\<forall>j v. j < length l \<and> l ! j = Val v \<longrightarrow> Suc j < length l \<and> l ! Suc j = Str TAB) \<and>
        (l = [Endl] \<or> token_values l \<noteq> []) \<and>
        (token_values l \<noteq> [] \<longrightarrow> (\<exists>pre. l = pre @ [Str TAB, Endl])))"
proof -
  let ?line = "\<lambda>vs. concat (map (\<lambda>v. [Val v, Str TAB]) vs) @ [Endl]"
  from regr_main_any_lines [of lib argc argv w] obtain vss where
    f: "file_written (snd (regr_main lib argc argv w)) = concat (map ?line vss)"
    by blast
  have "l \<noteq> [] \<and> last l = Endl \<and> Endl \<notin> set (butlast l) \<and>
        (\<forall>j v. j < length l \<and> l ! j = Val v \<longrightarrow> Suc j < length l \<and> l ! Suc j = Str TAB) \<and>
        (l = [Endl] \<or> token_values l \<noteq> []) \<and>
        (token_values l \<noteq> [] \<longrightarrow> (\<exists>pre. l = pre @ [Str TAB, Endl]))"
    if "l \<in> set (map ?line vss)" for l
  proof -
    from that obtain vs where l: "l = ?line vs" by auto
    have a: "l \<noteq> []" "last l = Endl" by (simp_all add: l)
    have b: "Endl \<notin> set (butlast l)"
      by (simp only: l butlast_snoc) (rule tabbed_no_Endl)
    have c: "token_values l = vs" by (simp only: l tabbed_values)
    have d: "\<forall>j v. j < length l \<and> l ! j = Val v \<longrightarrow> Suc j < length l \<and> l ! Suc j = Str TAB"
      unfolding l using tabbed_value_then_tab [of _ vs] by blast
    have e: "token_values l \<noteq> [] \<longrightarrow> (\<exists>pre. l = pre @ [Str TAB, Endl])"
      unfolding c unfolding l using tabbed_trailing_tab [of vs] by blast
    have g: "l = [Endl] \<or> token_values l \<noteq> []"
      unfolding c by (cases vs) (simp_all add: l)
    from a b d e g show ?thesis by blast
  qed
  with f show ?thesis by blast
qed

lemma toy_regr_file:
  "file_written (snd (regr_main toy_regr_lib 0 [] toy_regr_files)) =
     [Val 1, Str TAB, Val 2, Str TAB, Val 7, Str TAB, Endl,
      Val 3, Str TAB, Val 4, Str TAB, Val 8, Str TAB, Endl]"
  by code_simp

theorem regr_main_trailing_tab_witness:
  "file_written (snd (regr_main toy_regr_lib 0 [] toy_regr_files)) =
     [Val 1, Str TAB, Val 2, Str TAB, Val 7, Str TAB, Endl,
      Val 3, Str TAB, Val 4, Str TAB, Val 8, Str TAB, Endl] \<and>
   (\<exists>l rest pre.
      file_written (snd (regr_main toy_regr_lib 0 [] toy_regr_files)) = l @ rest \<and>
      token_values l \<noteq> [] \<and> l = pre @ [Str TAB, Endl] \<and> Endl \<notin> set pre)"
proof -
  from regr_main_trailing_tab [of toy_regr_lib 0 "[]" toy_regr_files] obtain lines where
    f: "file_written (snd (regr_main toy_regr_lib 0 [] toy_regr_files)) = concat lines" and
    each: "\<forall>l \<in> set lines.
        l \<noteq> [] \<and> last l = Endl \<and> Endl \<notin> set (butlast l) \<and>
        (\<forall>j v. j < length l \<and> l ! j = Val v \<longrightarrow> Suc j < length l \<and> l ! Suc j = Str TAB) \<and>
        (l = [Endl] \<or> token_values l \<noteq> []) \<and>
        (token_values l \<noteq> [] \<longrightarrow> (\<exists>pre. l = pre @ [Str TAB, Endl]))"
    by blast
  from f toy_regr_file have "lines \<noteq> []" by auto
  then obtain l ls where ls: "lines = l # ls" by (cases lines) auto
  with each have l: "l \<noteq> []" "Endl \<notin> set (butlast l)" "l = [Endl] \<or> token_values l \<noteq> []"
    "token_values l \<noteq> [] \<longrightarrow> (\<exists>pre. l = pre @ [Str TAB, Endl])"
    by simp_all
  from f ls have fl: "file_written (snd (regr_main toy_regr_lib 0 [] toy_regr_files))
    = l @ concat ls" by simp
  with toy_regr_file l(1) have "hd l = Val 1" by (cases l) auto
  with l(1) have "l \<noteq> [Endl]" by auto
  with l(3) have tv: "token_values l \<noteq> []" by blast
  with l(4) obtain pre where pre: "l = pre @ [Str TAB, Endl]" by blast
  with l(2) have "Endl \<notin> set pre" by (simp add: butlast_append)
  with fl tv pre toy_regr_file show ?thesis by blast
qed

text \<open>
  Claim C10 as stated fails when a test sample has no component at all: with a
  pipeline that maps the empty input vector to the empty output vector and samples
  whose target vector is empty, each line of the results file is the line terminator
  alone, with no tab before it.
\<close>

theorem regr_main_line_without_tab:
  "regr_main echo_regr_lib 0 [] toy_regr_files_no_columns =
     (EXIT_SUCCESS,
      regr_setup_events 0 @
      [FileOpen ''MultidimensionalRegressionResultsData.txt'',
       Call (Predict []) True, FileWrite Endl,
       Call (Predict []) True, FileWrite Endl,
       FileClose]) \<and>
   file_written (snd (regr_main echo_regr_lib 0 [] toy_regr_files_no_columns))
     = [Endl, Endl]"
  by code_simp

end
